theory Spec2Isabelle
  imports Complex_Main "HOL-Library.Word"
begin

text \<open>
  The account pipeline of the repository: access guards and request validators
  (middleware), the controller, the service and the persistence gateway of the
  good-practice classes \<open>UserController\<close>, \<open>UserService\<close> and \<open>UserRepository\<close>.
  Asynchronous calls are awaited one after the other in the source and are sequential
  here; one request is handled at a time. The ORM client and \<open>bcrypt\<close> are external and
  are parameters of the functions that call them.
\<close>

section \<open>JavaScript values\<close>

text \<open>
  A JavaScript string is a sequence of UTF-16 code units; \<open>length\<close>, \<open>trim\<close> and the
  regular expressions of the source work on code units. String literals of the source
  are ASCII and are written \<open>js ''...''\<close>.
\<close>

type_synonym jschar = "16 word"
type_synonym jsstring = "jschar list"

definition js :: "string \<Rightarrow> jsstring" where
  "js s = map (\<lambda>c. of_nat (of_char c)) s"

text \<open>
  Numbers. Every finite double is a rational, so a finite number is modelled by its exact
  value; the comparisons of the source (with 0 and 150, and of parsed ids) are exact on
  them. \<open>NaN\<close> and the two infinities are values of their own.
\<close>

datatype jsnum = NaN | NegInf | Fin rat | PosInf

fun num_lt :: "jsnum \<Rightarrow> jsnum \<Rightarrow> bool" where
  "num_lt NaN _ = False"
| "num_lt _ NaN = False"
| "num_lt (Fin a) (Fin b) = (a < b)"
| "num_lt NegInf NegInf = False"
| "num_lt NegInf _ = True"
| "num_lt _ NegInf = False"
| "num_lt PosInf _ = False"
| "num_lt _ PosInf = True"

fun num_eq :: "jsnum \<Rightarrow> jsnum \<Rightarrow> bool" where
  "num_eq NaN _ = False"
| "num_eq _ NaN = False"
| "num_eq a b = (a = b)"

definition isNaN :: "jsnum \<Rightarrow> bool" where
  "isNaN n = (n = NaN)"

datatype jsval =
    JUndefined
  | JNull
  | JBool bool
  | JNum jsnum
  | JStr jsstring
  | JArr "jsval list"
  | JObj "(jsstring \<times> jsval) list"

type_synonym jsobj = "(jsstring \<times> jsval) list"

text \<open>Property read \<open>o.k\<close>: \<open>undefined\<close> for a key the object does not have.\<close>

definition obj_get :: "jsobj \<Rightarrow> jsstring \<Rightarrow> jsval" where
  "obj_get obj k = (case map_of obj k of None \<Rightarrow> JUndefined | Some v \<Rightarrow> v)"

definition has_key :: "jsobj \<Rightarrow> jsstring \<Rightarrow> bool" where
  "has_key obj k = (map_of obj k \<noteq> None)"

text \<open>Rest destructuring \<open>const { k: _, ...rest } = obj\<close>: every own property but \<open>k\<close>.\<close>

definition omit :: "jsstring \<Rightarrow> jsobj \<Rightarrow> jsobj" where
  "omit k obj = filter (\<lambda>kv. fst kv \<noteq> k) obj"

text \<open>\<open>typeof v === 'string'\<close>, and the values that \<open>!v\<close> takes for false.\<close>

fun is_string :: "jsval \<Rightarrow> bool" where
  "is_string (JStr _) = True"
| "is_string _ = False"

fun falsy :: "jsval \<Rightarrow> bool" where
  "falsy JUndefined = True"
| "falsy JNull = True"
| "falsy (JBool b) = (\<not> b)"
| "falsy (JNum n) = (n = NaN \<or> n = Fin 0)"
| "falsy (JStr s) = (s = [])"
| "falsy (JArr _) = False"
| "falsy (JObj _) = False"

text \<open>
  Strict equality \<open>v === n\<close> against a number: the left operand must be a number too,
  and \<open>NaN\<close> equals nothing.
\<close>

fun strict_eq_num :: "jsval \<Rightarrow> jsnum \<Rightarrow> bool" where
  "strict_eq_num (JNum a) b = num_eq a b"
| "strict_eq_num _ _ = False"

subsection \<open>Character classes\<close>

text \<open>\<open>\d\<close> is \<open>[0-9]\<close>; \<open>[a-zA-Z]\<close>; \<open>\s\<close> and \<open>trim\<close> share the set WhiteSpace plus
  LineTerminator of ECMAScript.\<close>

definition isDigit :: "jschar \<Rightarrow> bool" where
  "isDigit c = (0x30 \<le> c \<and> c \<le> 0x39)"

definition isLetter :: "jschar \<Rightarrow> bool" where
  "isLetter c = ((0x61 \<le> c \<and> c \<le> 0x7A) \<or> (0x41 \<le> c \<and> c \<le> 0x5A))"

definition isWhiteSpace :: "jschar \<Rightarrow> bool" where
  "isWhiteSpace c =
     (c = 0x09 \<or> c = 0x0A \<or> c = 0x0B \<or> c = 0x0C \<or> c = 0x0D \<or> c = 0x20 \<or> c = 0xA0
      \<or> c = 0x1680 \<or> (0x2000 \<le> c \<and> c \<le> 0x200A) \<or> c = 0x2028 \<or> c = 0x2029
      \<or> c = 0x202F \<or> c = 0x205F \<or> c = 0x3000 \<or> c = 0xFEFF)"

definition trim :: "jsstring \<Rightarrow> jsstring" where
  "trim s = rev (dropWhile isWhiteSpace (rev (dropWhile isWhiteSpace s)))"

subsection \<open>parseInt\<close>

text \<open>
  \<open>parseInt(s, 10)\<close>: skip leading white space, read one optional sign, then the longest
  run of decimal digits; no digit gives \<open>NaN\<close>, and whatever follows the digits is
  ignored. The result is a Number, that is the double nearest to the integer the digits
  denote: exact below 2^53, rounded to 53 significant bits with ties to the even
  mantissa above, and an infinity from 2^1024 on. (ECMAScript lets an engine replace the
  digits after the 20th by zeros; V8, which runs the source, converts the whole run.)
  Minus zero and zero are one value here, as they are for \<open>===\<close>. Applied to
  \<open>undefined\<close>, \<open>parseInt\<close> parses the text "undefined", which has no digit.
\<close>

function bitLength :: "int \<Rightarrow> nat" where
  "bitLength n = (if n \<le> 0 then 0 else Suc (bitLength (n div 2)))"
  by pat_completeness auto
termination
  by (relation "measure nat") auto

declare bitLength.simps [simp del]

definition toDouble :: "int \<Rightarrow> jsnum" where
  "toDouble i =
     (let n = \<bar>i\<bar>;
          e = bitLength n - 53;
          q = n div 2 ^ e;
          r = n mod 2 ^ e;
          m = (if 2 ^ e < 2 * r \<or> (2 * r = 2 ^ e \<and> odd q) then q + 1 else q);
          v = m * 2 ^ e
      in if 2 ^ 1024 \<le> v then (if i < 0 then NegInf else PosInf)
         else Fin (of_int (if i < 0 then - v else v)))"

definition digitVal :: "jschar \<Rightarrow> int" where
  "digitVal c = int (unat c) - 48"

definition digitsVal :: "jsstring \<Rightarrow> int" where
  "digitsVal ds = foldl (\<lambda>acc c. 10 * acc + digitVal c) 0 ds"

definition parseInt :: "jsstring \<Rightarrow> jsnum" where
  "parseInt s =
     (let t = dropWhile isWhiteSpace s;
          neg = (t \<noteq> [] \<and> hd t = 0x2D);
          u = (if t \<noteq> [] \<and> (hd t = 0x2B \<or> hd t = 0x2D) then tl t else t);
          z = takeWhile isDigit u
      in if z = [] then NaN
         else toDouble (if neg then - digitsVal z else digitsVal z))"

fun parseInt_val :: "jsval \<Rightarrow> jsnum" where
  "parseInt_val (JStr s) = parseInt s"
| "parseInt_val _ = NaN"

section \<open>Requests, responses and middleware\<close>

text \<open>
  The part of an Express request the pipeline reads: the headers, the route parameters,
  the parsed JSON body, and the two properties \<open>userId\<close> and \<open>userRole\<close> that the
  authentication guard attaches (both \<open>undefined\<close> until it has run). A middleware
  either calls \<open>next()\<close>, handing the request on, or sends a response and ends the chain.
\<close>

record request =
  headers :: "(jsstring \<times> jsstring) list"
  params :: "(jsstring \<times> jsstring) list"
  body :: jsobj
  userId :: jsval
  userRole :: jsval

record response =
  status :: nat
  json :: jsval

datatype outcome = Next request | Sent response

definition header :: "request \<Rightarrow> jsstring \<Rightarrow> jsval" where
  "header req k = (case map_of (headers req) k of None \<Rightarrow> JUndefined | Some v \<Rightarrow> JStr v)"

definition param :: "request \<Rightarrow> jsstring \<Rightarrow> jsval" where
  "param req k = (case map_of (params req) k of None \<Rightarrow> JUndefined | Some v \<Rightarrow> JStr v)"

text \<open>A request as Express hands it to the first middleware of a route.\<close>

definition incoming :: "(jsstring \<times> jsstring) list \<Rightarrow> (jsstring \<times> jsstring) list \<Rightarrow> jsobj \<Rightarrow> request" where
  "incoming hs ps b =
     \<lparr>headers = hs, params = ps, body = b, userId = JUndefined, userRole = JUndefined\<rparr>"

definition error_json :: "nat \<Rightarrow> string \<Rightarrow> response" where
  "error_json code msg = \<lparr>status = code, json = JObj [(js ''error'', JStr (js msg))]\<rparr>"

subsection \<open>Access guards (middleware/auth.ts)\<close>

definition requireAuth :: "request \<Rightarrow> outcome" where
  "requireAuth req =
     (let uid = header req (js ''x-user-id'');
          role = header req (js ''x-user-role'')
      in if falsy uid then Sent (error_json 401 ''Unauthorized: User ID required'')
         else Next (req\<lparr>userId := JNum (parseInt_val uid), userRole := role\<rparr>))"

definition requireAdmin :: "request \<Rightarrow> outcome" where
  "requireAdmin req =
     (if userRole req \<noteq> JStr (js ''admin'')
      then Sent (error_json 403 ''Forbidden: Admin access required'')
      else Next req)"

definition requireOwnershipOrAdmin :: "request \<Rightarrow> outcome" where
  "requireOwnershipOrAdmin req =
     (let targetUserId = parseInt_val (param req (js ''id''))
      in if isNaN targetUserId then Sent (error_json 400 ''Invalid user ID'')
         else if \<not> strict_eq_num (userId req) targetUserId \<and> userRole req \<noteq> JStr (js ''admin'')
         then Sent (error_json 403 ''Forbidden: Cannot access other user resources'')
         else Next req)"

text \<open>Running one middleware after another: a sent response ends the chain.\<close>

definition and_then :: "outcome \<Rightarrow> (request \<Rightarrow> outcome) \<Rightarrow> outcome" where
  "and_then r f = (case r of Next req \<Rightarrow> f req | Sent res \<Rightarrow> Sent res)"

subsection \<open>Request validators (middleware/validation.ts)\<close>

text \<open>\<open>/^\+?[\d\s-()]{10,}$/\<close>: an optional plus sign, then ten or more characters, each a
  digit, white space, a dash or a parenthesis, up to the end of the text.\<close>

definition isPhoneChar :: "jschar \<Rightarrow> bool" where
  "isPhoneChar c = (isDigit c \<or> isWhiteSpace c \<or> c = 0x2D \<or> c = 0x28 \<or> c = 0x29)"

definition phoneRegex_test :: "jsstring \<Rightarrow> bool" where
  "phoneRegex_test s =
     (let r = (if s \<noteq> [] \<and> hd s = 0x2B then tl s else s)
      in 10 \<le> length r \<and> list_all isPhoneChar r)"

definition validateUserProfileUpdate :: "request \<Rightarrow> outcome" where
  "validateUserProfileUpdate req =
     (let name = obj_get (body req) (js ''name'');
          bio = obj_get (body req) (js ''bio'');
          age = obj_get (body req) (js ''age'');
          phone = obj_get (body req) (js ''phone'')
      in if name \<noteq> JUndefined \<and>
            (case name of JStr s \<Rightarrow> length (trim s) = 0 | _ \<Rightarrow> True)
         then Sent (error_json 400 ''Name must be a non-empty string'')
         else if name \<noteq> JUndefined \<and> (case name of JStr s \<Rightarrow> 100 < length s | _ \<Rightarrow> False)
         then Sent (error_json 400 ''Name must be less than 100 characters'')
         else if bio \<noteq> JUndefined \<and> \<not> is_string bio
         then Sent (error_json 400 ''Bio must be a string'')
         else if bio \<noteq> JUndefined \<and> (case bio of JStr s \<Rightarrow> 500 < length s | _ \<Rightarrow> False)
         then Sent (error_json 400 ''Bio must be less than 500 characters'')
         else if age \<noteq> JUndefined \<and>
            (case age of JNum n \<Rightarrow> num_lt n (Fin 0) \<or> num_lt (Fin 150) n | _ \<Rightarrow> True)
         then Sent (error_json 400 ''Age must be a number between 0 and 150'')
         else if phone \<noteq> JUndefined \<and> phone \<noteq> JNull \<and> \<not> is_string phone
         then Sent (error_json 400 ''Phone must be a string'')
         else if phone \<noteq> JUndefined \<and> phone \<noteq> JNull \<and>
            (case phone of JStr s \<Rightarrow> \<not> phoneRegex_test s | _ \<Rightarrow> False)
         then Sent (error_json 400 ''Invalid phone number format'')
         else Next req)"

definition validatePassword :: "request \<Rightarrow> outcome" where
  "validatePassword req =
     (let password = obj_get (body req) (js ''password'')
      in if falsy password then Sent (error_json 400 ''Password is required'')
         else case password of
           JStr s \<Rightarrow>
             if length s < 8 then Sent (error_json 400 ''Password must be at least 8 characters'')
             else
               (let hasNumber = list_ex isDigit s;
                    hasLetter = list_ex isLetter s
                in if \<not> hasNumber \<or> \<not> hasLetter
                   then Sent (error_json 400
                     ''Password must contain at least one letter and one number'')
                   else Next req)
         | _ \<Rightarrow> Sent (error_json 400 ''Password must be at least 8 characters''))"

section \<open>Errors and external collaborators\<close>

text \<open>
  A thrown value carries a message, which is all the controller looks at. \<open>Error m\<close> is
  \<open>new Error(m)\<close>; a \<open>StorageException\<close> is an exception raised inside the ORM client
  (a violated constraint, a missing row), with the ORM's own message.
\<close>

datatype storage_failure = ConstraintViolation | RecordNotFound

datatype exn = Error jsstring | StorageException storage_failure jsstring

fun message :: "exn \<Rightarrow> jsstring" where
  "message (Error m) = m"
| "message (StorageException _ m) = m"

text \<open>
  The injected \<open>PrismaClient\<close>, as far as the repository calls it: \<open>prisma.user\<close> over a
  store of type \<open>'s\<close>. \<open>findUnique\<close> is called with \<open>where: { id }\<close> and with
  \<open>where: { email }\<close>; it reads the store and resolves to a row or to \<open>null\<close>. The writing
  calls resolve to a row or reject, and return the store they leave behind.
  \<open>findMany\<close> is always called with \<open>orderBy: { createdAt: 'desc' }\<close>; its arguments
  here are \<open>skip\<close> and \<open>take\<close>, numbers of rows. The client
  is a parameter of the model: what is proved of the repository, the service and the
  controller holds for every client.
\<close>

record 's PrismaClient =
  user_findUnique_id :: "'s \<Rightarrow> jsnum \<Rightarrow> exn + jsobj option"
  user_findUnique_email :: "'s \<Rightarrow> jsval \<Rightarrow> exn + jsobj option"
  user_create :: "'s \<Rightarrow> jsobj \<Rightarrow> (exn + jsobj) \<times> 's"
  user_update :: "'s \<Rightarrow> jsnum \<Rightarrow> jsobj \<Rightarrow> (exn + jsobj) \<times> 's"
  user_delete :: "'s \<Rightarrow> jsnum \<Rightarrow> (exn + jsobj) \<times> 's"
  user_findMany :: "'s \<Rightarrow> nat \<Rightarrow> nat \<Rightarrow> exn + jsobj list"

text \<open>
  The \<open>bcrypt\<close> module, a parameter as well. \<open>hash\<close> draws a fresh salt at every call;
  the draw is the first argument here. Both functions may reject.
\<close>

record bcrypt =
  bcrypt_hash :: "jsstring \<Rightarrow> jsval \<Rightarrow> nat \<Rightarrow> exn + jsstring"
  bcrypt_compare :: "jsval \<Rightarrow> jsval \<Rightarrow> exn + bool"

text \<open>
  \<open>ToNumber\<close>, which the relational operators apply to an operand that is not a number.
  The conversion of a string or an object is the engine's, and is the parameter \<open>ext\<close>.
\<close>

fun ToNumber :: "(jsval \<Rightarrow> jsnum) \<Rightarrow> jsval \<Rightarrow> jsnum" where
  "ToNumber ext JUndefined = NaN"
| "ToNumber ext JNull = Fin 0"
| "ToNumber ext (JBool b) = Fin (if b then 1 else 0)"
| "ToNumber ext (JNum n) = n"
| "ToNumber ext v = ext v"

section \<open>Persistence gateway (repositories/userRepository.ts)\<close>

definition UserRepository_findById ::
  "'s PrismaClient \<Rightarrow> 's \<Rightarrow> jsnum \<Rightarrow> exn + jsobj option" where
  "UserRepository_findById prisma st ident = user_findUnique_id prisma st ident"

definition UserRepository_findByEmail ::
  "'s PrismaClient \<Rightarrow> 's \<Rightarrow> jsval \<Rightarrow> exn + jsobj option" where
  "UserRepository_findByEmail prisma st email = user_findUnique_email prisma st email"

definition UserRepository_create ::
  "'s PrismaClient \<Rightarrow> 's \<Rightarrow> jsobj \<Rightarrow> (exn + jsobj) \<times> 's" where
  "UserRepository_create prisma st data = user_create prisma st data"

definition UserRepository_update ::
  "'s PrismaClient \<Rightarrow> 's \<Rightarrow> jsnum \<Rightarrow> jsobj \<Rightarrow> (exn + jsobj) \<times> 's" where
  "UserRepository_update prisma st ident data = user_update prisma st ident data"

definition UserRepository_delete ::
  "'s PrismaClient \<Rightarrow> 's \<Rightarrow> jsnum \<Rightarrow> (exn + jsobj) \<times> 's" where
  "UserRepository_delete prisma st ident = user_delete prisma st ident"


section \<open>Account service (services/userService.ts, class UserService)\<close>

definition UserService_createUser ::
  "'s PrismaClient \<Rightarrow> bcrypt \<Rightarrow> 's \<Rightarrow> jsstring \<Rightarrow>
   jsval \<Rightarrow> jsval \<Rightarrow> jsval \<Rightarrow> jsval \<Rightarrow> jsval \<Rightarrow> jsval \<Rightarrow> (exn + jsobj) \<times> 's" where
  "UserService_createUser prisma bc st salt email password name bio age phone =
     (case UserRepository_findByEmail prisma st email of
        Inl e \<Rightarrow> (Inl e, st)
      | Inr (Some existingUser) \<Rightarrow> (Inl (Error (js ''User with this email already exists'')), st)
      | Inr None \<Rightarrow>
          (let saltRounds = 10 in
           case bcrypt_hash bc salt password saltRounds of
             Inl e \<Rightarrow> (Inl e, st)
           | Inr hashedPassword \<Rightarrow>
               UserRepository_create prisma st
                 [(js ''email'', email),
                  (js ''password'', JStr hashedPassword),
                  (js ''name'', name),
                  (js ''bio'', bio),
                  (js ''age'', age),
                  (js ''phone'', phone)]))"

definition UserService_updateUserProfile ::
  "'s PrismaClient \<Rightarrow> (jsval \<Rightarrow> jsnum) \<Rightarrow> 's \<Rightarrow> jsnum \<Rightarrow> jsobj \<Rightarrow> (exn + jsobj) \<times> 's" where
  "UserService_updateUserProfile prisma ext st uid updates =
     (case UserRepository_findById prisma st uid of
        Inl e \<Rightarrow> (Inl e, st)
      | Inr None \<Rightarrow> (Inl (Error (js ''User not found'')), st)
      | Inr (Some user) \<Rightarrow>
          (let age = obj_get updates (js ''age'') in
           if age \<noteq> JUndefined \<and>
              (num_lt (ToNumber ext age) (Fin 0) \<or> num_lt (Fin 150) (ToNumber ext age))
           then (Inl (Error (js ''Invalid age'')), st)
           else UserRepository_update prisma st uid updates))"

definition UserService_getUserProfile ::
  "'s PrismaClient \<Rightarrow> 's \<Rightarrow> jsnum \<Rightarrow> exn + jsobj" where
  "UserService_getUserProfile prisma st uid =
     (case UserRepository_findById prisma st uid of
        Inl e \<Rightarrow> Inl e
      | Inr None \<Rightarrow> Inl (Error (js ''User not found''))
      | Inr (Some user) \<Rightarrow> Inr (omit (js ''password'') user))"

definition UserService_authenticateUser ::
  "'s PrismaClient \<Rightarrow> bcrypt \<Rightarrow> 's \<Rightarrow> jsval \<Rightarrow> jsval \<Rightarrow> exn + jsobj" where
  "UserService_authenticateUser prisma bc st email password =
     (case UserRepository_findByEmail prisma st email of
        Inl e \<Rightarrow> Inl e
      | Inr None \<Rightarrow> Inl (Error (js ''Invalid credentials''))
      | Inr (Some user) \<Rightarrow>
          (case bcrypt_compare bc password (obj_get user (js ''password'')) of
             Inl e \<Rightarrow> Inl e
           | Inr isPasswordValid \<Rightarrow>
               if \<not> isPasswordValid then Inl (Error (js ''Invalid credentials''))
               else Inr (omit (js ''password'') user)))"

section \<open>Account controller (controllers/userController.ts, class UserController)\<close>

definition UserController_createUser ::
  "'s PrismaClient \<Rightarrow> bcrypt \<Rightarrow> 's \<Rightarrow> jsstring \<Rightarrow> request \<Rightarrow> response \<times> 's" where
  "UserController_createUser prisma bc st salt req =
     (let b = body req in
      case UserService_createUser prisma bc st salt
             (obj_get b (js ''email'')) (obj_get b (js ''password'')) (obj_get b (js ''name''))
             (obj_get b (js ''bio'')) (obj_get b (js ''age'')) (obj_get b (js ''phone'')) of
        (Inr user, st') \<Rightarrow>
          (\<lparr>status = 201,
            json = JObj [(js ''message'', JStr (js ''User created successfully'')),
                         (js ''user'', JObj (omit (js ''password'') user))]\<rparr>, st')
      | (Inl e, st') \<Rightarrow>
          (if message e = js ''User with this email already exists''
           then error_json 409 ''User with this email already exists''
           else error_json 500 ''Internal server error'', st'))"

definition UserController_getUserProfile ::
  "'s PrismaClient \<Rightarrow> 's \<Rightarrow> request \<Rightarrow> response" where
  "UserController_getUserProfile prisma st req =
     (let uid = parseInt_val (param req (js ''id'')) in
      case UserService_getUserProfile prisma st uid of
        Inr user \<Rightarrow> \<lparr>status = 200, json = JObj user\<rparr>
      | Inl e \<Rightarrow>
          if message e = js ''User not found'' then error_json 404 ''User not found''
          else error_json 500 ''Internal server error'')"

definition UserController_updateUserProfile ::
  "'s PrismaClient \<Rightarrow> (jsval \<Rightarrow> jsnum) \<Rightarrow> 's \<Rightarrow> request \<Rightarrow> response \<times> 's" where
  "UserController_updateUserProfile prisma ext st req =
     (let uid = parseInt_val (param req (js ''id''));
          b = body req;
          updates = [(js ''name'', obj_get b (js ''name'')),
                     (js ''bio'', obj_get b (js ''bio'')),
                     (js ''age'', obj_get b (js ''age'')),
                     (js ''phone'', obj_get b (js ''phone''))]
      in case UserService_updateUserProfile prisma ext st uid updates of
        (Inr updatedUser, st') \<Rightarrow>
          (\<lparr>status = 200,
            json = JObj [(js ''message'', JStr (js ''Profile updated successfully'')),
                         (js ''user'', JObj (omit (js ''password'') updatedUser))]\<rparr>, st')
      | (Inl e, st') \<Rightarrow>
          (if message e = js ''User not found'' then error_json 404 ''User not found''
           else if message e = js ''Invalid age'' then error_json 400 ''Invalid age''
           else error_json 500 ''Internal server error'', st'))"

section \<open>A backing store\<close>

text \<open>
  Modelled from the spec: the backing relational store behind \<open>prisma.user\<close> (the ORM
  client and the schema are not under src/). Following sections 3 and 4.1 of the
  specification: an account has a numeric identifier assigned by the persistence layer,
  an email that is unique across accounts, a password, optional name, bio, age and phone,
  and a creation timestamp; a lookup with no match gives an empty result; creation fails
  on a violated unique email constraint; update and delete fail on a missing row. Rows
  are objects with these eight columns, an optional column left out being \<open>null\<close>.
  The age is an integer: a finite number written to the age column is stored as its
  integer part. An update writes every field of its data that is not \<open>undefined\<close>.
  A page of the list is taken from the rows ordered by creation time, latest first.
\<close>

record store =
  rows :: "jsobj list"
  next_id :: int
  clock :: int

fun obj_set :: "jsobj \<Rightarrow> jsstring \<Rightarrow> jsval \<Rightarrow> jsobj" where
  "obj_set [] k v = [(k, v)]"
| "obj_set ((k', v') # r) k v = (if k' = k then (k, v) # r else (k', v') # obj_set r k v)"

definition nullable :: "jsval \<Rightarrow> jsval" where
  "nullable v = (if v = JUndefined then JNull else v)"

definition int_column :: "jsval \<Rightarrow> jsval" where
  "int_column v =
     (case v of
        JNum (Fin r) \<Rightarrow> JNum (Fin (of_int (if 0 \<le> r then \<lfloor>r\<rfloor> else \<lceil>r\<rceil>)))
      | _ \<Rightarrow> v)"

definition column :: "jsstring \<Rightarrow> jsval \<Rightarrow> jsval" where
  "column k v = (if k = js ''age'' then int_column v else v)"

definition created_at :: "jsobj \<Rightarrow> rat" where
  "created_at row = (case obj_get row (js ''createdAt'') of JNum (Fin r) \<Rightarrow> r | _ \<Rightarrow> 0)"

definition has_id :: "jsnum \<Rightarrow> jsobj \<Rightarrow> bool" where
  "has_id ident row = strict_eq_num (obj_get row (js ''id'')) ident"

definition has_email :: "jsval \<Rightarrow> jsobj \<Rightarrow> bool" where
  "has_email email row = (obj_get row (js ''email'') = email)"

definition apply_updates :: "jsobj \<Rightarrow> jsobj \<Rightarrow> jsobj" where
  "apply_updates data row =
     foldl (\<lambda>r kv. if snd kv = JUndefined then r
                   else obj_set r (fst kv) (column (fst kv) (snd kv))) row data"

definition store_findUnique_id :: "store \<Rightarrow> jsnum \<Rightarrow> exn + jsobj option" where
  "store_findUnique_id st ident = Inr (find (has_id ident) (rows st))"

definition store_findUnique_email :: "store \<Rightarrow> jsval \<Rightarrow> exn + jsobj option" where
  "store_findUnique_email st email = Inr (find (has_email email) (rows st))"

definition store_create :: "store \<Rightarrow> jsobj \<Rightarrow> (exn + jsobj) \<times> store" where
  "store_create st data =
     (if list_ex (has_email (obj_get data (js ''email''))) (rows st)
      then (Inl (StorageException ConstraintViolation
                  (js ''Unique constraint failed on the fields: (email)'')), st)
      else
        (let row = [(js ''id'', JNum (Fin (of_int (next_id st)))),
                    (js ''email'', obj_get data (js ''email'')),
                    (js ''password'', obj_get data (js ''password'')),
                    (js ''name'', nullable (obj_get data (js ''name''))),
                    (js ''bio'', nullable (obj_get data (js ''bio''))),
                    (js ''age'', int_column (nullable (obj_get data (js ''age'')))),
                    (js ''phone'', nullable (obj_get data (js ''phone''))),
                    (js ''createdAt'', JNum (Fin (of_int (clock st))))]
         in (Inr row,
             st\<lparr>rows := rows st @ [row], next_id := next_id st + 1, clock := clock st + 1\<rparr>)))"

definition store_update :: "store \<Rightarrow> jsnum \<Rightarrow> jsobj \<Rightarrow> (exn + jsobj) \<times> store" where
  "store_update st ident data =
     (case find (has_id ident) (rows st) of
        None \<Rightarrow> (Inl (StorageException RecordNotFound (js ''Record to update not found.'')), st)
      | Some row \<Rightarrow>
          (Inr (apply_updates data row),
           st\<lparr>rows := map (\<lambda>r. if has_id ident r then apply_updates data r else r) (rows st)\<rparr>))"

definition store_delete :: "store \<Rightarrow> jsnum \<Rightarrow> (exn + jsobj) \<times> store" where
  "store_delete st ident =
     (case find (has_id ident) (rows st) of
        None \<Rightarrow> (Inl (StorageException RecordNotFound (js ''Record to delete does not exist.'')), st)
      | Some row \<Rightarrow> (Inr row, st\<lparr>rows := filter (\<lambda>r. \<not> has_id ident r) (rows st)\<rparr>))"

definition store_findMany :: "store \<Rightarrow> nat \<Rightarrow> nat \<Rightarrow> exn + jsobj list" where
  "store_findMany st skip tk =
     Inr (take tk (drop skip (sort_key (\<lambda>row. - created_at row) (rows st))))"

definition store_prisma :: "store PrismaClient" where
  "store_prisma =
     \<lparr>user_findUnique_id = store_findUnique_id,
      user_findUnique_email = store_findUnique_email,
      user_create = store_create,
      user_update = store_update,
      user_delete = store_delete,
      user_findMany = store_findMany\<rparr>"

definition empty_store :: store where
  "empty_store = \<lparr>rows = [], next_id = 1, clock = 0\<rparr>"

text \<open>
  A stand-in for \<open>bcrypt\<close> to run the model on: the hash is the marker \<open>$2b$\<close>, the
  cost, the salt and the data, and \<open>compare\<close> checks that the stored text ends with the
  data. It is not a cryptographic hash.
\<close>

definition toy_bcrypt :: bcrypt where
  "toy_bcrypt =
     \<lparr>bcrypt_hash = (\<lambda>salt data rounds.
        case data of
          JStr s \<Rightarrow> Inr (js ''$2b$'' @ js (if rounds = 10 then ''10'' else ''??'') @ js ''$'' @ salt @ s)
        | _ \<Rightarrow> Inl (Error (js ''data must be a string or Buffer and salt must either be a salt string or a number of rounds''))),
      bcrypt_compare = (\<lambda>data encrypted.
        case (data, encrypted) of
          (JStr s, JStr h) \<Rightarrow> Inr (length s \<le> length h \<and> drop (length h - length s) h = s)
        | _ \<Rightarrow> Inl (Error (js ''data and hash must be strings'')))\<rparr>"

text \<open>A store with one account, registered with the password "abc12345" and the salt "salt".\<close>

definition sample_store :: store where
  "sample_store =
     \<lparr>rows = [[(js ''id'', JNum (Fin 1)),
               (js ''email'', JStr (js ''x@y.com'')),
               (js ''password'', JStr (js ''$2b$10$saltabc12345'')),
               (js ''name'', JNull),
               (js ''bio'', JNull),
               (js ''age'', JNull),
               (js ''phone'', JNull),
               (js ''createdAt'', JNum (Fin 0))]],
      next_id = 2, clock = 1\<rparr>"

text \<open>
  The conversion of strings and objects to numbers for the runs on this store, none of
  which carries a string or an object where a number is compared.
\<close>

definition sample_ext :: "jsval \<Rightarrow> jsnum" where
  "sample_ext v = NaN"

section \<open>Facts about objects, strings and parsing\<close>

lemma js_char_inv: "char_of (unat (of_nat (of_char c) :: 16 word)) = c"
proof -
  have "(of_char c :: nat) < 256" by (rule nat_of_char_less_256)
  then have "(of_char c :: nat) mod 65536 = of_char c" by (intro mod_less) linarith
  then show ?thesis by (simp add: unat_of_nat)
qed

lemma js_inj [simp]: "(js a = js b) = (a = b)"
proof
  assume "js a = js b"
  then have "map (\<lambda>w. char_of (unat (w :: 16 word))) (js a) = map (\<lambda>w. char_of (unat w)) (js b)"
    by simp
  then show "a = b" by (simp add: js_def js_char_inv o_def)
qed simp

lemma map_of_omit: "map_of (omit k obj) k' = (if k' = k then None else map_of obj k')"
  by (induction obj) (auto simp: omit_def)

lemma has_key_omit [simp]: "\<not> has_key (omit k obj) k"
  by (simp add: has_key_def map_of_omit)

lemma obj_get_omit: "obj_get (omit k obj) k' = (if k' = k then JUndefined else obj_get obj k')"
  by (simp add: obj_get_def map_of_omit)

lemma obj_get_obj_set: "obj_get (obj_set r k v) k' = (if k' = k then v else obj_get r k')"
  by (induction r) (auto simp: obj_get_def)

lemmas char_defs = js_def isDigit_def isLetter_def isWhiteSpace_def

lemmas parse_defs = parseInt_def digitsVal_def digitVal_def

lemma bitLength_le: "n < 2 ^ k \<Longrightarrow> bitLength n \<le> k"
proof (induction k arbitrary: n)
  case 0
  then show ?case by (simp add: bitLength.simps [of n])
next
  case (Suc k)
  show ?case
  proof (cases "n \<le> 0")
    case True
    then show ?thesis by (simp add: bitLength.simps [of n])
  next
    case False
    have "n div 2 < 2 ^ k" using Suc.prems by simp
    from Suc.IH [OF this] False show ?thesis by (simp add: bitLength.simps [of n])
  qed
qed

lemma bitLength_eq: "2 ^ k \<le> n \<Longrightarrow> n < 2 ^ Suc k \<Longrightarrow> bitLength n = Suc k"
proof (induction k arbitrary: n)
  case 0
  then have "n = 1" by simp
  then show ?case by (simp add: bitLength.simps [of 1] bitLength.simps [of 0])
next
  case (Suc k)
  have pos: "\<not> n \<le> 0"
    using Suc.prems(1) by (smt (verit) zero_less_power)
  have "2 ^ k \<le> n div 2" "n div 2 < 2 ^ Suc k"
    using Suc.prems by simp_all
  from Suc.IH [OF this] pos show ?case by (simp add: bitLength.simps [of n])
qed

lemma toDouble_shift:
  "bitLength \<bar>i\<bar> - 53 = e \<Longrightarrow>
   toDouble i =
     (let q = \<bar>i\<bar> div 2 ^ e;
          r = \<bar>i\<bar> mod 2 ^ e;
          m = (if 2 ^ e < 2 * r \<or> (2 * r = 2 ^ e \<and> odd q) then q + 1 else q);
          v = m * 2 ^ e
      in if 2 ^ 1024 \<le> v then (if i < 0 then NegInf else PosInf)
         else Fin (of_int (if i < 0 then - v else v)))"
  by (simp only: toDouble_def Let_def)

text \<open>Below 2^53 the double is the integer itself.\<close>

lemma toDouble_exact: "\<bar>i\<bar> < 2 ^ 53 \<Longrightarrow> toDouble i = Fin (of_int i)"
proof -
  assume a: "\<bar>i\<bar> < 2 ^ 53"
  then have e: "bitLength \<bar>i\<bar> - 53 = 0"
    using bitLength_le [of "\<bar>i\<bar>" 53] by simp
  have small: "\<not> (2::int) ^ 1024 \<le> \<bar>i\<bar>"
    using a by simp
  have "toDouble i = Fin (of_int (if i < 0 then - \<bar>i\<bar> else \<bar>i\<bar>))"
    using small by (simp add: toDouble_shift [OF e])
  then show ?thesis by simp
qed

text \<open>2^53 + 1 lies halfway between two doubles and goes to the even one, 2^53.\<close>

lemma toDouble_tie: "toDouble 9007199254740993 = Fin 9007199254740992"
proof -
  have "bitLength \<bar>9007199254740993\<bar> = Suc 53"
    by (rule bitLength_eq) simp_all
  then have e: "bitLength \<bar>9007199254740993\<bar> - 53 = 1"
    by simp
  show ?thesis
    by (simp add: toDouble_shift [OF e])
qed

lemma toDouble_two_53: "toDouble 9007199254740992 = Fin 9007199254740992"
proof -
  have "bitLength \<bar>9007199254740992\<bar> = Suc 53"
    by (rule bitLength_eq) simp_all
  then have e: "bitLength \<bar>9007199254740992\<bar> - 53 = 1"
    by simp
  show ?thesis
    by (simp add: toDouble_shift [OF e])
qed

text \<open>From 2^1024 on the double is an infinity.\<close>

lemma toDouble_overflow: "toDouble (2 ^ 1024) = PosInf" "toDouble (- (2 ^ 1024)) = NegInf"
proof -
  have "bitLength (2 ^ 1024) = Suc 1024"
    by (rule bitLength_eq) simp_all
  then have e: "bitLength \<bar>2 ^ 1024\<bar> - 53 = 972" "bitLength \<bar>- (2 ^ 1024)\<bar> - 53 = 972"
    by simp_all
  show "toDouble (2 ^ 1024) = PosInf"
    unfolding toDouble_shift [OF e(1)] by simp
  show "toDouble (- (2 ^ 1024)) = NegInf"
    unfolding toDouble_shift [OF e(2)] by simp
qed

lemma toDouble_not_NaN: "toDouble i \<noteq> NaN"
  by (simp add: toDouble_def Let_def)

lemma parseInt_examples:
  "parseInt (js ''5'') = Fin 5" "parseInt (js ''7'') = Fin 7" "parseInt (js ''abc'') = NaN"
  "parseInt (js ''5abc'') = Fin 5" "parseInt (js ''7abc'') = Fin 7"
  "parseInt (js ''7.9'') = Fin 7" "parseInt (js ''1'') = Fin 1"
  by (simp_all add: char_defs parse_defs toDouble_exact)

lemma parseInt_rounds:
  "parseInt (js ''9007199254740993'') = Fin 9007199254740992"
  "parseInt (js ''9007199254740992'') = Fin 9007199254740992"
  by (simp_all add: char_defs parse_defs toDouble_tie toDouble_two_53)

lemma parseInt_NaN_iff:
  "(parseInt h = NaN) =
     (let t = dropWhile isWhiteSpace h;
          u = (if t \<noteq> [] \<and> (hd t = 0x2B \<or> hd t = 0x2D) then tl t else t)
      in u = [] \<or> \<not> isDigit (hd u))"
  by (simp add: parseInt_def Let_def takeWhile_eq_Nil_iff toDouble_not_NaN)

lemma header_simps [simp]:
  "header (incoming hs ps b) k = (case map_of hs k of None \<Rightarrow> JUndefined | Some v \<Rightarrow> JStr v)"
  "param (incoming hs ps b) k = (case map_of ps k of None \<Rightarrow> JUndefined | Some v \<Rightarrow> JStr v)"
  "body (incoming hs ps b) = b"
  "userId (incoming hs ps b) = JUndefined"
  "userRole (incoming hs ps b) = JUndefined"
  by (simp_all add: header_def param_def incoming_def)

lemma header_update [simp]:
  "header (req\<lparr>userId := u\<rparr>) k = header req k"
  "header (req\<lparr>userRole := r\<rparr>) k = header req k"
  "param (req\<lparr>userId := u\<rparr>) k = param req k"
  "param (req\<lparr>userRole := r\<rparr>) k = param req k"
  by (simp_all add: header_def param_def)

section \<open>The access guards decide\<close>

text \<open>
  Claim C6, as amended. The ownership-or-admin guard, for every request: when \<open>parseInt\<close>
  of the path id is \<open>NaN\<close>, which is exactly when the id, after leading white space and
  one optional sign, does not begin with a decimal digit, it answers 400 "Invalid user
  ID"; otherwise the target is the number that \<open>parseInt\<close> reads from the decimal prefix
  of the id, and the guard hands the request on when the attached identity equals the
  target or the attached role is \<open>admin\<close>, and answers 403 in every other case. In
  particular identity 5 on path id 5 passes, identity 5 on path id 7 is refused with 403
  unless the role is \<open>admin\<close>, and the path id "abc" is refused with 400.
\<close>

theorem ownership_guard_decides:
  "requireOwnershipOrAdmin req =
     (if parseInt_val (param req (js ''id'')) = NaN
      then Sent (error_json 400 ''Invalid user ID'')
      else if strict_eq_num (userId req) (parseInt_val (param req (js ''id'')))
              \<or> userRole req = JStr (js ''admin'')
      then Next req
      else Sent (error_json 403 ''Forbidden: Cannot access other user resources''))
   \<and> (param req (js ''id'') = JStr s \<longrightarrow>
        (parseInt_val (param req (js ''id'')) = NaN) =
          (let t = dropWhile isWhiteSpace s;
               u = (if t \<noteq> [] \<and> (hd t = 0x2B \<or> hd t = 0x2D) then tl t else t)
           in u = [] \<or> \<not> isDigit (hd u)))
   \<and> (userId req = JNum (Fin 5) \<and> param req (js ''id'') = JStr (js ''5'')
        \<longrightarrow> requireOwnershipOrAdmin req = Next req)
   \<and> (userId req = JNum (Fin 5) \<and> param req (js ''id'') = JStr (js ''7'')
        \<and> userRole req \<noteq> JStr (js ''admin'')
        \<longrightarrow> requireOwnershipOrAdmin req
            = Sent (error_json 403 ''Forbidden: Cannot access other user resources''))
   \<and> (userId req = JNum (Fin 5) \<and> param req (js ''id'') = JStr (js ''7'')
        \<and> userRole req = JStr (js ''admin'')
        \<longrightarrow> requireOwnershipOrAdmin req = Next req)
   \<and> (param req (js ''id'') = JStr (js ''abc'')
        \<longrightarrow> requireOwnershipOrAdmin req = Sent (error_json 400 ''Invalid user ID''))"
proof -
  have nan: "(parseInt_val (param req (js ''id'')) = NaN) =
          (let t = dropWhile isWhiteSpace s;
               u = (if t \<noteq> [] \<and> (hd t = 0x2B \<or> hd t = 0x2D) then tl t else t)
           in u = [] \<or> \<not> isDigit (hd u))"
    if "param req (js ''id'') = JStr s"
    using that parseInt_NaN_iff [of s] by simp
  have rest: "requireOwnershipOrAdmin req =
     (if parseInt_val (param req (js ''id'')) = NaN
      then Sent (error_json 400 ''Invalid user ID'')
      else if strict_eq_num (userId req) (parseInt_val (param req (js ''id'')))
              \<or> userRole req = JStr (js ''admin'')
      then Next req
      else Sent (error_json 403 ''Forbidden: Cannot access other user resources''))
   \<and> (userId req = JNum (Fin 5) \<and> param req (js ''id'') = JStr (js ''5'')
        \<longrightarrow> requireOwnershipOrAdmin req = Next req)
   \<and> (userId req = JNum (Fin 5) \<and> param req (js ''id'') = JStr (js ''7'')
        \<and> userRole req \<noteq> JStr (js ''admin'')
        \<longrightarrow> requireOwnershipOrAdmin req
            = Sent (error_json 403 ''Forbidden: Cannot access other user resources''))
   \<and> (userId req = JNum (Fin 5) \<and> param req (js ''id'') = JStr (js ''7'')
        \<and> userRole req = JStr (js ''admin'')
        \<longrightarrow> requireOwnershipOrAdmin req = Next req)
   \<and> (param req (js ''id'') = JStr (js ''abc'')
        \<longrightarrow> requireOwnershipOrAdmin req = Sent (error_json 400 ''Invalid user ID''))"
    by (simp add: requireOwnershipOrAdmin_def isNaN_def Let_def parseInt_examples)
  from nan rest show ?thesis by blast
qed

text \<open>
  The four cases, and a fifth beyond 2^53: the identity 9007199254740992 on the path id
  9007199254740993 passes, both being the same double.
\<close>

theorem ownership_guard_witness:
  "requireOwnershipOrAdmin ((incoming [] [(js ''id'', js ''5'')] [])\<lparr>userId := JNum (Fin 5)\<rparr>)
     = Next ((incoming [] [(js ''id'', js ''5'')] [])\<lparr>userId := JNum (Fin 5)\<rparr>)
   \<and> requireOwnershipOrAdmin
       ((incoming [] [(js ''id'', js ''7'')] [])\<lparr>userId := JNum (Fin 5), userRole := JStr (js ''user'')\<rparr>)
     = Sent (error_json 403 ''Forbidden: Cannot access other user resources'')
   \<and> requireOwnershipOrAdmin
       ((incoming [] [(js ''id'', js ''7'')] [])\<lparr>userId := JNum (Fin 5), userRole := JStr (js ''admin'')\<rparr>)
     = Next ((incoming [] [(js ''id'', js ''7'')] [])\<lparr>userId := JNum (Fin 5), userRole := JStr (js ''admin'')\<rparr>)
   \<and> requireOwnershipOrAdmin ((incoming [] [(js ''id'', js ''abc'')] [])\<lparr>userId := JNum (Fin 5)\<rparr>)
     = Sent (error_json 400 ''Invalid user ID'')
   \<and> requireOwnershipOrAdmin
       ((incoming [] [(js ''id'', js ''9007199254740993'')] [])
          \<lparr>userId := JNum (parseInt (js ''9007199254740992''))\<rparr>)
     = Next ((incoming [] [(js ''id'', js ''9007199254740993'')] [])
          \<lparr>userId := JNum (parseInt (js ''9007199254740992''))\<rparr>)"
  using
    ownership_guard_decides [of "(incoming [] [(js ''id'', js ''5'')] [])\<lparr>userId := JNum (Fin 5)\<rparr>",
      THEN conjunct1]
    ownership_guard_decides [of "(incoming [] [(js ''id'', js ''7'')] [])\<lparr>userId := JNum (Fin 5), userRole := JStr (js ''user'')\<rparr>",
      THEN conjunct1]
    ownership_guard_decides [of "(incoming [] [(js ''id'', js ''7'')] [])\<lparr>userId := JNum (Fin 5), userRole := JStr (js ''admin'')\<rparr>",
      THEN conjunct1]
    ownership_guard_decides [of "(incoming [] [(js ''id'', js ''abc'')] [])\<lparr>userId := JNum (Fin 5)\<rparr>",
      THEN conjunct1]
    ownership_guard_decides [of "(incoming [] [(js ''id'', js ''9007199254740993'')] [])
          \<lparr>userId := JNum (parseInt (js ''9007199254740992''))\<rparr>", THEN conjunct1]
  by (simp add: parseInt_examples parseInt_rounds)

text \<open>
  The path ids "7abc" and "7.9" are not numeric, yet neither is refused with 400: each is
  read as 7, so identity 7 passes, and identity 5 without the admin role is refused with
  403, the answer for another user's resource.
\<close>

theorem ownership_guard_prefix_counterexample:
  "\<not> list_all isDigit (js ''7abc'')
   \<and> requireOwnershipOrAdmin ((incoming [] [(js ''id'', js ''7abc'')] [])\<lparr>userId := JNum (Fin 7)\<rparr>)
     = Next ((incoming [] [(js ''id'', js ''7abc'')] [])\<lparr>userId := JNum (Fin 7)\<rparr>)
   \<and> requireOwnershipOrAdmin ((incoming [] [(js ''id'', js ''7.9'')] [])\<lparr>userId := JNum (Fin 7)\<rparr>)
     = Next ((incoming [] [(js ''id'', js ''7.9'')] [])\<lparr>userId := JNum (Fin 7)\<rparr>)
   \<and> requireOwnershipOrAdmin ((incoming [] [(js ''id'', js ''7abc'')] [])\<lparr>userId := JNum (Fin 5)\<rparr>)
     = Sent (error_json 403 ''Forbidden: Cannot access other user resources'')"
  apply (simp add: requireOwnershipOrAdmin_def isNaN_def parseInt_examples)
  apply (simp add: char_defs)
  done

text \<open>
  Claim C9, as amended. The authentication guard hands on every request whose
  \<open>x-user-id\<close> header is a non-empty string and attaches \<open>parseInt\<close> of the header as
  the identity, with the \<open>x-user-role\<close> header as the role. The identity is \<open>NaN\<close>
  exactly when the header, after leading white space and one optional sign, does not
  begin with a decimal digit; otherwise it is the double that \<open>parseInt\<close> reads from the
  decimal prefix. When it is \<open>NaN\<close>, the caller passes the ownership-or-admin guard
  exactly when the path id parses and the \<open>x-user-role\<close> header is \<open>admin\<close>.
\<close>

theorem auth_guard_identity:
  assumes "map_of (headers req) (js ''x-user-id'') = Some h" and "h \<noteq> []"
  shows
    "requireAuth req
       = Next (req\<lparr>userId := JNum (parseInt h), userRole := header req (js ''x-user-role'')\<rparr>)
     \<and> (parseInt h = NaN) =
         (let t = dropWhile isWhiteSpace h;
              u = (if t \<noteq> [] \<and> (hd t = 0x2B \<or> hd t = 0x2D) then tl t else t)
          in u = [] \<or> \<not> isDigit (hd u))
     \<and> (parseInt h = NaN \<longrightarrow>
         (\<exists>r. and_then (requireAuth req) requireOwnershipOrAdmin = Next r)
           = (parseInt_val (param req (js ''id'')) \<noteq> NaN
              \<and> header req (js ''x-user-role'') = JStr (js ''admin'')))"
proof -
  have attach: "requireAuth req
      = Next (req\<lparr>userId := JNum (parseInt h), userRole := header req (js ''x-user-role'')\<rparr>)"
    using assms by (simp add: requireAuth_def header_def)
  have chain: "(\<exists>r. and_then (requireAuth req) requireOwnershipOrAdmin = Next r)
      = (parseInt_val (param req (js ''id'')) \<noteq> NaN
         \<and> header req (js ''x-user-role'') = JStr (js ''admin''))"
    if "parseInt h = NaN"
    unfolding attach using that
    by (simp add: and_then_def requireOwnershipOrAdmin_def isNaN_def Let_def)
  show ?thesis
    using attach chain parseInt_NaN_iff [of h] by blast
qed

theorem auth_guard_identity_witness:
  "requireAuth (incoming [(js ''x-user-id'', js ''abc'')] [(js ''id'', js ''7'')] [])
     = Next ((incoming [(js ''x-user-id'', js ''abc'')] [(js ''id'', js ''7'')] [])
              \<lparr>userId := JNum NaN, userRole := JUndefined\<rparr>)
   \<and> \<not> (\<exists>r. and_then (requireAuth (incoming [(js ''x-user-id'', js ''abc'')] [(js ''id'', js ''7'')] []))
             requireOwnershipOrAdmin = Next r)
   \<and> requireAuth (incoming [(js ''x-user-id'', js ''9007199254740993'')] [(js ''id'', js ''7'')] [])
     = Next ((incoming [(js ''x-user-id'', js ''9007199254740993'')] [(js ''id'', js ''7'')] [])
              \<lparr>userId := JNum (Fin 9007199254740992), userRole := JUndefined\<rparr>)"
proof -
  have hdr: "map_of (headers (incoming [(js ''x-user-id'', js ''abc'')] [(js ''id'', js ''7'')] []))
      (js ''x-user-id'') = Some (js ''abc'')"
    by (simp add: incoming_def)
  have ne: "js ''abc'' \<noteq> []"
    by (simp add: js_def)
  note t = auth_guard_identity [OF hdr ne]
  have attach: "requireAuth (incoming [(js ''x-user-id'', js ''abc'')] [(js ''id'', js ''7'')] [])
      = Next ((incoming [(js ''x-user-id'', js ''abc'')] [(js ''id'', js ''7'')] [])
              \<lparr>userId := JNum NaN, userRole := JUndefined\<rparr>)"
    using t [THEN conjunct1] by (simp add: parseInt_examples)
  have "(\<exists>r. and_then (requireAuth (incoming [(js ''x-user-id'', js ''abc'')] [(js ''id'', js ''7'')] []))
             requireOwnershipOrAdmin = Next r)
        = (parseInt_val (param (incoming [(js ''x-user-id'', js ''abc'')] [(js ''id'', js ''7'')] [])
             (js ''id'')) \<noteq> NaN
           \<and> header (incoming [(js ''x-user-id'', js ''abc'')] [(js ''id'', js ''7'')] [])
               (js ''x-user-role'') = JStr (js ''admin''))"
    by (rule t [THEN conjunct2, THEN conjunct2, THEN mp]) (rule parseInt_examples)
  then have refused: "\<not> (\<exists>r. and_then (requireAuth (incoming [(js ''x-user-id'', js ''abc'')] [(js ''id'', js ''7'')] []))
             requireOwnershipOrAdmin = Next r)"
    by simp
  have hdr2: "map_of (headers (incoming [(js ''x-user-id'', js ''9007199254740993'')]
      [(js ''id'', js ''7'')] [])) (js ''x-user-id'') = Some (js ''9007199254740993'')"
    by (simp add: incoming_def)
  have ne2: "js ''9007199254740993'' \<noteq> []"
    by (simp add: js_def)
  have rounded: "requireAuth (incoming [(js ''x-user-id'', js ''9007199254740993'')] [(js ''id'', js ''7'')] [])
     = Next ((incoming [(js ''x-user-id'', js ''9007199254740993'')] [(js ''id'', js ''7'')] [])
              \<lparr>userId := JNum (Fin 9007199254740992), userRole := JUndefined\<rparr>)"
    using auth_guard_identity [OF hdr2 ne2, THEN conjunct1] by (simp add: parseInt_rounds)
  from attach refused rounded show ?thesis by blast
qed

text \<open>
  The header "5abc" is not a number, yet its identity is 5, not \<open>NaN\<close>, and its caller
  passes the ownership-or-admin guard for path id 5 with no role header at all.
\<close>

theorem auth_guard_prefix_counterexample:
  "\<not> list_all isDigit (js ''5abc'')
   \<and> parseInt (js ''5abc'') = Fin 5
   \<and> and_then (requireAuth (incoming [(js ''x-user-id'', js ''5abc'')] [(js ''id'', js ''5'')] []))
        requireOwnershipOrAdmin
     = Next ((incoming [(js ''x-user-id'', js ''5abc'')] [(js ''id'', js ''5'')] [])
              \<lparr>userId := JNum (Fin 5), userRole := JUndefined\<rparr>)"
  apply (simp add: parseInt_examples requireAuth_def and_then_def requireOwnershipOrAdmin_def isNaN_def)
  apply (simp add: char_defs)
  done

section \<open>The validators decide\<close>

lemma validatePassword_string:
  "obj_get (body req) (js ''password'') = JStr s \<Longrightarrow>
   validatePassword req =
     (if s = [] then Sent (error_json 400 ''Password is required'')
      else if length s < 8 then Sent (error_json 400 ''Password must be at least 8 characters'')
      else if list_ex isDigit s \<and> list_ex isLetter s then Next req
      else Sent (error_json 400 ''Password must contain at least one letter and one number''))"
  by (simp add: validatePassword_def Let_def)

lemma validatePassword_other:
  "\<forall>s. obj_get (body req) (js ''password'') \<noteq> JStr s \<Longrightarrow>
   validatePassword req =
     (if falsy (obj_get (body req) (js ''password''))
      then Sent (error_json 400 ''Password is required'')
      else Sent (error_json 400 ''Password must be at least 8 characters''))"
  by (cases "obj_get (body req) (js ''password'')") (simp_all add: validatePassword_def Let_def)

text \<open>
  Claim C8. The password validator hands the request on exactly when the \<open>password\<close>
  field of the body is a string of at least 8 code units with at least one ASCII letter
  and at least one decimal digit. Otherwise it answers 400 with one message, that of the
  first rule violated: required, then at least 8 characters, then a letter and a number.
  It refuses "short1" and "alllettersnodigit" and accepts "abc12345".
\<close>

theorem password_validator_accepts_iff:
  "(validatePassword req = Next req) =
     (\<exists>s. obj_get (body req) (js ''password'') = JStr s \<and> 8 \<le> length s
          \<and> (\<exists>c \<in> set s. isLetter c) \<and> (\<exists>c \<in> set s. isDigit c))
   \<and> (validatePassword req = Next req \<or>
      validatePassword req = Sent (error_json 400
        (if falsy (obj_get (body req) (js ''password'')) then ''Password is required''
         else if \<not> (\<exists>s. obj_get (body req) (js ''password'') = JStr s \<and> 8 \<le> length s)
         then ''Password must be at least 8 characters''
         else ''Password must contain at least one letter and one number'')))
   \<and> (obj_get (body req) (js ''password'') = JStr (js ''short1'')
        \<longrightarrow> validatePassword req = Sent (error_json 400 ''Password must be at least 8 characters''))
   \<and> (obj_get (body req) (js ''password'') = JStr (js ''alllettersnodigit'')
        \<longrightarrow> validatePassword req
            = Sent (error_json 400 ''Password must contain at least one letter and one number''))
   \<and> (obj_get (body req) (js ''password'') = JStr (js ''abc12345'')
        \<longrightarrow> validatePassword req = Next req)"
proof -
  have iff: "(validatePassword req = Next req) =
     (\<exists>s. obj_get (body req) (js ''password'') = JStr s \<and> 8 \<le> length s
          \<and> (\<exists>c \<in> set s. isLetter c) \<and> (\<exists>c \<in> set s. isDigit c))"
  proof (cases "\<exists>s. obj_get (body req) (js ''password'') = JStr s")
    case True
    then obtain s where s: "obj_get (body req) (js ''password'') = JStr s" by blast
    show ?thesis
      by (auto simp: validatePassword_string [OF s] s list_ex_iff)
  next
    case False
    then have "\<forall>s. obj_get (body req) (js ''password'') \<noteq> JStr s" by blast
    from validatePassword_other [OF this] False show ?thesis by auto
  qed
  have first: "validatePassword req = Next req \<or>
      validatePassword req = Sent (error_json 400
        (if falsy (obj_get (body req) (js ''password'')) then ''Password is required''
         else if \<not> (\<exists>s. obj_get (body req) (js ''password'') = JStr s \<and> 8 \<le> length s)
         then ''Password must be at least 8 characters''
         else ''Password must contain at least one letter and one number''))"
  proof (cases "\<exists>s. obj_get (body req) (js ''password'') = JStr s")
    case True
    then obtain s where s: "obj_get (body req) (js ''password'') = JStr s" by blast
    show ?thesis
      by (auto simp: validatePassword_string [OF s] s)
  next
    case False
    then have "\<forall>s. obj_get (body req) (js ''password'') \<noteq> JStr s" by blast
    from validatePassword_other [OF this] False show ?thesis by auto
  qed
  have ex1: "validatePassword req = Sent (error_json 400 ''Password must be at least 8 characters'')"
    if "obj_get (body req) (js ''password'') = JStr (js ''short1'')"
    by (simp add: validatePassword_string [OF that]) (simp add: js_def)
  have ex2: "validatePassword req
            = Sent (error_json 400 ''Password must contain at least one letter and one number'')"
    if "obj_get (body req) (js ''password'') = JStr (js ''alllettersnodigit'')"
    by (simp add: validatePassword_string [OF that]) (simp add: char_defs)
  have ex3: "validatePassword req = Next req"
    if "obj_get (body req) (js ''password'') = JStr (js ''abc12345'')"
    by (simp add: validatePassword_string [OF that]) (simp add: char_defs)
  show ?thesis
    using iff first ex1 ex2 ex3 by blast
qed

theorem password_validator_witness:
  "validatePassword (incoming [] [] [(js ''password'', JStr (js ''short1''))])
     = Sent (error_json 400 ''Password must be at least 8 characters'')
   \<and> validatePassword (incoming [] [] [(js ''password'', JStr (js ''alllettersnodigit''))])
     = Sent (error_json 400 ''Password must contain at least one letter and one number'')
   \<and> validatePassword (incoming [] [] [(js ''password'', JStr (js ''abc12345''))])
     = Next (incoming [] [] [(js ''password'', JStr (js ''abc12345''))])"
proof -
  have g: "obj_get (body (incoming [] [] [(js ''password'', v)])) (js ''password'') = v" for v
    by (simp add: obj_get_def)
  note t1 = password_validator_accepts_iff
    [of "incoming [] [] [(js ''password'', JStr (js ''short1''))]"]
  note t2 = password_validator_accepts_iff
    [of "incoming [] [] [(js ''password'', JStr (js ''alllettersnodigit''))]"]
  note t3 = password_validator_accepts_iff
    [of "incoming [] [] [(js ''password'', JStr (js ''abc12345''))]"]
  have 1: "validatePassword (incoming [] [] [(js ''password'', JStr (js ''short1''))])
     = Sent (error_json 400 ''Password must be at least 8 characters'')"
    by (rule t1 [THEN conjunct2, THEN conjunct2, THEN conjunct1, THEN mp]) (rule g)
  have 2: "validatePassword (incoming [] [] [(js ''password'', JStr (js ''alllettersnodigit''))])
     = Sent (error_json 400 ''Password must contain at least one letter and one number'')"
    by (rule t2 [THEN conjunct2, THEN conjunct2, THEN conjunct2, THEN conjunct1, THEN mp]) (rule g)
  have 3: "validatePassword (incoming [] [] [(js ''password'', JStr (js ''abc12345''))])
     = Next (incoming [] [] [(js ''password'', JStr (js ''abc12345''))])"
    by (rule t3 [THEN conjunct2, THEN conjunct2, THEN conjunct2, THEN conjunct2, THEN mp]) (rule g)
  from 1 2 3 show ?thesis by blast
qed

text \<open>
  Claim C10. The profile-update validator treats \<open>null\<close> differently by field. A body
  whose \<open>phone\<close> is \<open>null\<close> is validated exactly as the same body without \<open>phone\<close>, and
  is handed on unchanged when that passes; a body with only \<open>phone: null\<close> passes. A body
  whose \<open>name\<close>, \<open>bio\<close> or \<open>age\<close> is \<open>null\<close> is answered with 400, whatever else it holds.
\<close>

theorem profile_validator_null:
  "(obj_get (body req) (js ''phone'') = JNull \<longrightarrow>
      validateUserProfileUpdate req =
        (case validateUserProfileUpdate (req\<lparr>body := omit (js ''phone'') (body req)\<rparr>) of
           Next _ \<Rightarrow> Next req
         | Sent res \<Rightarrow> Sent res))
   \<and> (obj_get (body req) (js ''phone'') = JNull
        \<and> obj_get (body req) (js ''name'') = JUndefined
        \<and> obj_get (body req) (js ''bio'') = JUndefined
        \<and> obj_get (body req) (js ''age'') = JUndefined
        \<longrightarrow> validateUserProfileUpdate req = Next req)
   \<and> (obj_get (body req) (js ''name'') = JNull \<longrightarrow>
        validateUserProfileUpdate req = Sent (error_json 400 ''Name must be a non-empty string''))
   \<and> (obj_get (body req) (js ''bio'') = JNull \<longrightarrow>
        (\<exists>m. validateUserProfileUpdate req = Sent (error_json 400 m)))
   \<and> (obj_get (body req) (js ''age'') = JNull \<longrightarrow>
        (\<exists>m. validateUserProfileUpdate req = Sent (error_json 400 m)))"
proof -
  have phone: "validateUserProfileUpdate req =
        (case validateUserProfileUpdate (req\<lparr>body := omit (js ''phone'') (body req)\<rparr>) of
           Next _ \<Rightarrow> Next req
         | Sent res \<Rightarrow> Sent res)"
    if "obj_get (body req) (js ''phone'') = JNull"
    using that by (simp add: validateUserProfileUpdate_def obj_get_omit Let_def)
  have only: "validateUserProfileUpdate req = Next req"
    if "obj_get (body req) (js ''phone'') = JNull \<and> obj_get (body req) (js ''name'') = JUndefined
        \<and> obj_get (body req) (js ''bio'') = JUndefined
        \<and> obj_get (body req) (js ''age'') = JUndefined"
    using that by (simp add: validateUserProfileUpdate_def Let_def)
  have name: "validateUserProfileUpdate req = Sent (error_json 400 ''Name must be a non-empty string'')"
    if "obj_get (body req) (js ''name'') = JNull"
    using that by (simp add: validateUserProfileUpdate_def Let_def)
  have bio: "\<exists>m. validateUserProfileUpdate req = Sent (error_json 400 m)"
    if "obj_get (body req) (js ''bio'') = JNull"
    using that by (auto simp: validateUserProfileUpdate_def Let_def)
  have age: "\<exists>m. validateUserProfileUpdate req = Sent (error_json 400 m)"
    if "obj_get (body req) (js ''age'') = JNull"
    using that by (auto simp: validateUserProfileUpdate_def Let_def)
  show ?thesis
    using phone only name bio age by blast
qed

theorem profile_validator_null_witness:
  "validateUserProfileUpdate (incoming [] [] [(js ''phone'', JNull)])
     = Next (incoming [] [] [(js ''phone'', JNull)])
   \<and> validateUserProfileUpdate (incoming [] [] [(js ''name'', JNull)])
     = Sent (error_json 400 ''Name must be a non-empty string'')
   \<and> (\<exists>m. validateUserProfileUpdate (incoming [] [] [(js ''bio'', JNull)])
     = Sent (error_json 400 m))
   \<and> (\<exists>m. validateUserProfileUpdate (incoming [] [] [(js ''age'', JNull)])
     = Sent (error_json 400 m))"
proof -
  note p = profile_validator_null [of "incoming [] [] [(js ''phone'', JNull)]"]
  note n = profile_validator_null [of "incoming [] [] [(js ''name'', JNull)]"]
  note b = profile_validator_null [of "incoming [] [] [(js ''bio'', JNull)]"]
  note a = profile_validator_null [of "incoming [] [] [(js ''age'', JNull)]"]
  have 1: "validateUserProfileUpdate (incoming [] [] [(js ''phone'', JNull)])
     = Next (incoming [] [] [(js ''phone'', JNull)])"
    by (rule p [THEN conjunct2, THEN conjunct1, THEN mp]) (simp add: obj_get_def)
  have 2: "validateUserProfileUpdate (incoming [] [] [(js ''name'', JNull)])
     = Sent (error_json 400 ''Name must be a non-empty string'')"
    by (rule n [THEN conjunct2, THEN conjunct2, THEN conjunct1, THEN mp]) (simp add: obj_get_def)
  have 3: "\<exists>m. validateUserProfileUpdate (incoming [] [] [(js ''bio'', JNull)])
     = Sent (error_json 400 m)"
    by (rule b [THEN conjunct2, THEN conjunct2, THEN conjunct2, THEN conjunct1, THEN mp])
      (simp add: obj_get_def)
  have 4: "\<exists>m. validateUserProfileUpdate (incoming [] [] [(js ''age'', JNull)])
     = Sent (error_json 400 m)"
    by (rule a [THEN conjunct2, THEN conjunct2, THEN conjunct2, THEN conjunct2, THEN mp])
      (simp add: obj_get_def)
  from 1 2 3 4 show ?thesis by blast
qed

section \<open>Responses, authentication and registration\<close>

lemma getUserProfile_cases:
  "(\<exists>user. UserService_getUserProfile prisma st uid = Inr (omit (js ''password'') user))
   \<or> (\<exists>e. UserService_getUserProfile prisma st uid = Inl e)"
  by (auto simp: UserService_getUserProfile_def split: sum.splits option.splits)

lemmas store_defs = store_prisma_def store_findUnique_id_def store_findUnique_email_def
  store_create_def store_update_def store_delete_def empty_store_def has_id_def has_email_def
  nullable_def apply_updates_def int_column_def column_def

lemmas layer_defs = UserRepository_findById_def UserRepository_findByEmail_def
  UserRepository_create_def UserRepository_update_def UserRepository_delete_def

text \<open>
  Claim C1. Every response of the three controller actions that carries an account has no
  \<open>password\<close> key in it: \<open>createUser\<close> answers 201 with a \<open>user\<close> that lacks the key, or
  an error; \<open>getUserProfile\<close> answers 200 with an account that lacks it, or an error;
  \<open>updateUserProfile\<close> answers 200 with a \<open>user\<close> that lacks it, or an error. This holds
  for every ORM client, every \<open>bcrypt\<close> and every request that reaches the controller.
\<close>

theorem responses_carry_no_password:
  "((\<exists>u. fst (UserController_createUser prisma bc st salt req)
          = \<lparr>status = 201,
             json = JObj [(js ''message'', JStr (js ''User created successfully'')),
                          (js ''user'', JObj u)]\<rparr>
        \<and> \<not> has_key u (js ''password''))
    \<or> fst (UserController_createUser prisma bc st salt req)
        = error_json 409 ''User with this email already exists''
    \<or> fst (UserController_createUser prisma bc st salt req)
        = error_json 500 ''Internal server error'')
   \<and> ((\<exists>u. UserController_getUserProfile prisma st req = \<lparr>status = 200, json = JObj u\<rparr>
        \<and> \<not> has_key u (js ''password''))
    \<or> UserController_getUserProfile prisma st req = error_json 404 ''User not found''
    \<or> UserController_getUserProfile prisma st req = error_json 500 ''Internal server error'')
   \<and> ((\<exists>u. fst (UserController_updateUserProfile prisma ext st req)
          = \<lparr>status = 200,
             json = JObj [(js ''message'', JStr (js ''Profile updated successfully'')),
                          (js ''user'', JObj u)]\<rparr>
        \<and> \<not> has_key u (js ''password''))
    \<or> fst (UserController_updateUserProfile prisma ext st req) = error_json 404 ''User not found''
    \<or> fst (UserController_updateUserProfile prisma ext st req) = error_json 400 ''Invalid age''
    \<or> fst (UserController_updateUserProfile prisma ext st req)
        = error_json 500 ''Internal server error'')"
proof (intro conjI)
  show "(\<exists>u. fst (UserController_createUser prisma bc st salt req)
          = \<lparr>status = 201,
             json = JObj [(js ''message'', JStr (js ''User created successfully'')),
                          (js ''user'', JObj u)]\<rparr>
        \<and> \<not> has_key u (js ''password''))
    \<or> fst (UserController_createUser prisma bc st salt req)
        = error_json 409 ''User with this email already exists''
    \<or> fst (UserController_createUser prisma bc st salt req)
        = error_json 500 ''Internal server error''"
    by (auto simp: UserController_createUser_def Let_def split: prod.splits sum.splits)
  show "(\<exists>u. UserController_getUserProfile prisma st req = \<lparr>status = 200, json = JObj u\<rparr>
        \<and> \<not> has_key u (js ''password''))
    \<or> UserController_getUserProfile prisma st req = error_json 404 ''User not found''
    \<or> UserController_getUserProfile prisma st req = error_json 500 ''Internal server error''"
    using getUserProfile_cases [of prisma st "parseInt_val (param req (js ''id''))"]
    by (auto simp: UserController_getUserProfile_def Let_def)
  show "(\<exists>u. fst (UserController_updateUserProfile prisma ext st req)
          = \<lparr>status = 200,
             json = JObj [(js ''message'', JStr (js ''Profile updated successfully'')),
                          (js ''user'', JObj u)]\<rparr>
        \<and> \<not> has_key u (js ''password''))
    \<or> fst (UserController_updateUserProfile prisma ext st req) = error_json 404 ''User not found''
    \<or> fst (UserController_updateUserProfile prisma ext st req) = error_json 400 ''Invalid age''
    \<or> fst (UserController_updateUserProfile prisma ext st req)
        = error_json 500 ''Internal server error''"
    by (auto simp: UserController_updateUserProfile_def Let_def split: prod.splits sum.splits)
qed

lemma register_example_status:
  "status (fst (UserController_createUser store_prisma toy_bcrypt empty_store (js ''salt'')
     (incoming [] [] [(js ''email'', JStr (js ''x@y.com'')),
                      (js ''password'', JStr (js ''abc12345''))]))) = 201"
  by (simp add: UserController_createUser_def UserService_createUser_def layer_defs store_defs
      toy_bcrypt_def obj_get_def Let_def)

theorem responses_carry_no_password_witness:
  "\<exists>u. fst (UserController_createUser store_prisma toy_bcrypt empty_store (js ''salt'')
            (incoming [] [] [(js ''email'', JStr (js ''x@y.com'')),
                             (js ''password'', JStr (js ''abc12345''))]))
        = \<lparr>status = 201,
           json = JObj [(js ''message'', JStr (js ''User created successfully'')),
                        (js ''user'', JObj u)]\<rparr>
      \<and> \<not> has_key u (js ''password'')"
  using
    responses_carry_no_password [of store_prisma toy_bcrypt empty_store "js ''salt''"
      "incoming [] [] [(js ''email'', JStr (js ''x@y.com'')),
                       (js ''password'', JStr (js ''abc12345''))]", THEN conjunct1]
    register_example_status
  by (auto simp: error_json_def)

lemma register_sample:
  "UserService_createUser store_prisma toy_bcrypt empty_store (js ''salt'')
     (JStr (js ''x@y.com'')) (JStr (js ''abc12345'')) JUndefined JUndefined JUndefined JUndefined
   = (Inr (hd (rows sample_store)), sample_store)"
  by (simp add: UserService_createUser_def layer_defs store_defs toy_bcrypt_def obj_get_def
      sample_store_def js_def Let_def)

lemma sample_lookup:
  "UserRepository_findByEmail store_prisma sample_store (JStr (js ''x@y.com''))
     = Inr (Some (hd (rows sample_store)))"
  "UserRepository_findByEmail store_prisma sample_store (JStr (js ''nobody@y.com'')) = Inr None"
  "UserRepository_findById store_prisma sample_store (Fin 1) = Inr (Some (hd (rows sample_store)))"
  "UserRepository_findById store_prisma sample_store (Fin 2) = Inr None"
  by (simp_all add: layer_defs store_defs sample_store_def obj_get_def)

lemma sample_compare:
  "bcrypt_compare toy_bcrypt (JStr (js ''abc12345''))
     (obj_get (hd (rows sample_store)) (js ''password'')) = Inr True"
  "bcrypt_compare toy_bcrypt (JStr (js ''wrong1234''))
     (obj_get (hd (rows sample_store)) (js ''password'')) = Inr False"
  by (simp_all add: toy_bcrypt_def sample_store_def obj_get_def) (simp_all add: js_def)

text \<open>
  Claim C4. \<open>authenticateUser\<close> fails with the same exception, \<open>Error\<close> with the message
  "Invalid credentials", when the gateway finds no account for the email and when it
  finds one whose stored hash \<open>bcrypt.compare\<close> does not match; when the hash matches it
  returns the account without the \<open>password\<close> key.
\<close>

theorem authenticate_one_error:
  "(UserRepository_findByEmail prisma st email = Inr None \<longrightarrow>
      UserService_authenticateUser prisma bc st email pw = Inl (Error (js ''Invalid credentials'')))
   \<and> (UserRepository_findByEmail prisma st email = Inr (Some user)
        \<and> bcrypt_compare bc pw (obj_get user (js ''password'')) = Inr False \<longrightarrow>
      UserService_authenticateUser prisma bc st email pw = Inl (Error (js ''Invalid credentials'')))
   \<and> (UserRepository_findByEmail prisma st email = Inr (Some user)
        \<and> bcrypt_compare bc pw (obj_get user (js ''password'')) = Inr True \<longrightarrow>
      UserService_authenticateUser prisma bc st email pw = Inr (omit (js ''password'') user)
      \<and> \<not> has_key (omit (js ''password'') user) (js ''password''))"
  by (simp add: UserService_authenticateUser_def)

theorem authenticate_one_error_witness:
  "UserService_authenticateUser store_prisma toy_bcrypt sample_store
     (JStr (js ''nobody@y.com'')) (JStr (js ''abc12345'')) = Inl (Error (js ''Invalid credentials''))
   \<and> UserService_authenticateUser store_prisma toy_bcrypt sample_store
     (JStr (js ''x@y.com'')) (JStr (js ''wrong1234'')) = Inl (Error (js ''Invalid credentials''))
   \<and> UserService_authenticateUser store_prisma toy_bcrypt sample_store
     (JStr (js ''x@y.com'')) (JStr (js ''abc12345''))
       = Inr (omit (js ''password'') (hd (rows sample_store)))"
  using
    authenticate_one_error [where prisma = store_prisma and st = sample_store
      and email = "JStr (js ''nobody@y.com'')" and bc = toy_bcrypt
      and pw = "JStr (js ''abc12345'')" and user = "hd (rows sample_store)"]
    authenticate_one_error [where prisma = store_prisma and st = sample_store
      and email = "JStr (js ''x@y.com'')" and bc = toy_bcrypt
      and pw = "JStr (js ''wrong1234'')" and user = "hd (rows sample_store)"]
    authenticate_one_error [where prisma = store_prisma and st = sample_store
      and email = "JStr (js ''x@y.com'')" and bc = toy_bcrypt
      and pw = "JStr (js ''abc12345'')" and user = "hd (rows sample_store)"]
    sample_lookup sample_compare
  by blast

lemma find_snoc_new:
  "find P xs = None \<Longrightarrow> P y \<Longrightarrow> find P (xs @ [y]) = Some y"
  by (induction xs) (auto split: if_splits)

lemma store_create_fresh:
  assumes "store_findUnique_email st email = Inr None"
    and "obj_get data (js ''email'') = email"
  shows "\<exists>row st'. store_create st data = (Inr row, st')
      \<and> obj_get row (js ''password'') = obj_get data (js ''password'')
      \<and> store_findUnique_email st' email = Inr (Some row)"
proof -
  have none: "find (has_email email) (rows st) = None"
    using assms(1) by (simp add: store_findUnique_email_def)
  then have nex: "\<not> list_ex (has_email email) (rows st)"
    by (simp add: find_None_iff list_ex_iff)
  define row where "row =
     [(js ''id'', JNum (Fin (of_int (next_id st)))),
      (js ''email'', obj_get data (js ''email'')),
      (js ''password'', obj_get data (js ''password'')),
      (js ''name'', nullable (obj_get data (js ''name''))),
      (js ''bio'', nullable (obj_get data (js ''bio''))),
      (js ''age'', int_column (nullable (obj_get data (js ''age'')))),
      (js ''phone'', nullable (obj_get data (js ''phone''))),
      (js ''createdAt'', JNum (Fin (of_int (clock st))))]"
  have created: "store_create st data =
      (Inr row, st\<lparr>rows := rows st @ [row], next_id := next_id st + 1, clock := clock st + 1\<rparr>)"
    using nex assms(2) by (simp add: store_create_def row_def Let_def)
  have pw: "obj_get row (js ''password'') = obj_get data (js ''password'')"
    by (simp add: row_def obj_get_def)
  have "has_email email row"
    using assms(2) by (simp add: has_email_def row_def obj_get_def)
  then have "find (has_email email) (rows st @ [row]) = Some row"
    using none by (rule find_snoc_new [rotated])
  then have "store_findUnique_email
      (st\<lparr>rows := rows st @ [row], next_id := next_id st + 1, clock := clock st + 1\<rparr>) email
      = Inr (Some row)"
    by (simp add: store_findUnique_email_def)
  with created pw show ?thesis by blast
qed

lemma createUser_on_store:
  assumes "UserRepository_findByEmail store_prisma s email = Inr None"
    and "bcrypt_hash bc salt pw 10 = Inr h"
  shows "\<exists>row s'. UserService_createUser store_prisma bc s salt email pw name bio age phone
                  = (Inr row, s')
         \<and> UserRepository_findByEmail store_prisma s' email = Inr (Some row)
         \<and> obj_get row (js ''password'') = JStr h"
proof -
  let ?data = "[(js ''email'', email), (js ''password'', JStr h), (js ''name'', name),
             (js ''bio'', bio), (js ''age'', age), (js ''phone'', phone)]"
  have run: "UserService_createUser store_prisma bc s salt email pw name bio age phone
      = store_create s ?data"
    using assms by (simp add: UserService_createUser_def UserRepository_create_def store_prisma_def)
  have none: "store_findUnique_email s email = Inr None"
    using assms(1) by (simp add: UserRepository_findByEmail_def store_prisma_def)
  have "obj_get ?data (js ''email'') = email" "obj_get ?data (js ''password'') = JStr h"
    by (simp_all add: obj_get_def)
  with store_create_fresh [OF none, of ?data] obtain row s' where
    "store_create s ?data = (Inr row, s')" "obj_get row (js ''password'') = JStr h"
    "store_findUnique_email s' email = Inr (Some row)"
    by auto
  then show ?thesis
    unfolding run by (auto simp: UserRepository_findByEmail_def store_prisma_def)
qed

lemma toy_hash_example:
  "bcrypt_hash toy_bcrypt (js ''salt'') (JStr (js ''abc12345'')) 10
     = Inr (js ''$2b$10$saltabc12345'')"
  by (simp add: toy_bcrypt_def js_def)

lemma empty_lookup:
  "UserRepository_findByEmail store_prisma empty_store email = Inr None"
  by (simp add: layer_defs store_defs)

text \<open>
  What \<open>createUser\<close> hands to the gateway: when the lookup finds no account and
  \<open>bcrypt.hash\<close> resolves, the \<open>password\<close> of the data passed to \<open>create\<close> is the string
  that \<open>bcrypt.hash\<close> returned for the plaintext at cost 10, and on the store that string
  is the password of the row persisted. Whether that string differs from the plaintext is
  a property of \<open>bcrypt\<close>, on which the service adds nothing.
\<close>

lemma createUser_passes_hash:
  assumes "UserRepository_findByEmail prisma st email = Inr None"
    and "bcrypt_hash bc salt pw 10 = Inr h"
  shows "UserService_createUser prisma bc st salt email pw name bio age phone
        = UserRepository_create prisma st
            [(js ''email'', email), (js ''password'', JStr h), (js ''name'', name),
             (js ''bio'', bio), (js ''age'', age), (js ''phone'', phone)]"
  using assms by (simp add: UserService_createUser_def)

text \<open>
  Claim C3. On a store with no account for the email, a first \<open>createUser\<close> whose hashing
  resolves succeeds, and any second \<open>createUser\<close> with the same email on the store it
  leaves fails with the error "User with this email already exists" and changes nothing.
  With any ORM client the service raises that error whenever the lookup by email finds an
  account, and when the lookup finds none it goes on to hash and create.
\<close>

theorem register_twice_duplicate:
  "(UserRepository_findByEmail store_prisma s email = Inr None
      \<and> bcrypt_hash bc salt1 pw1 10 = Inr h \<longrightarrow>
      (\<exists>row s'. UserService_createUser store_prisma bc s salt1 email pw1 n1 b1 a1 p1
                  = (Inr row, s')
         \<and> UserService_createUser store_prisma bc s' salt2 email pw2 n2 b2 a2 p2
             = (Inl (Error (js ''User with this email already exists'')), s')))
   \<and> (UserRepository_findByEmail prisma st email = Inr (Some u) \<longrightarrow>
        UserService_createUser prisma bc st salt email pw n b a p
          = (Inl (Error (js ''User with this email already exists'')), st))
   \<and> (UserRepository_findByEmail prisma st email = Inr None \<longrightarrow>
        UserService_createUser prisma bc st salt email pw n b a p
          = (case bcrypt_hash bc salt pw 10 of
               Inl e \<Rightarrow> (Inl e, st)
             | Inr hp \<Rightarrow>
                 UserRepository_create prisma st
                   [(js ''email'', email), (js ''password'', JStr hp), (js ''name'', n),
                    (js ''bio'', b), (js ''age'', a), (js ''phone'', p)]))"
proof (intro conjI impI)
  assume "UserRepository_findByEmail store_prisma s email = Inr None
      \<and> bcrypt_hash bc salt1 pw1 10 = Inr h"
  then have "UserRepository_findByEmail store_prisma s email = Inr None"
    and "bcrypt_hash bc salt1 pw1 10 = Inr h"
    by simp_all
  from createUser_on_store [OF this, of n1 b1 a1 p1] obtain row s' where
    first: "UserService_createUser store_prisma bc s salt1 email pw1 n1 b1 a1 p1 = (Inr row, s')"
    and found: "UserRepository_findByEmail store_prisma s' email = Inr (Some row)"
    by blast
  have "UserService_createUser store_prisma bc s' salt2 email pw2 n2 b2 a2 p2
      = (Inl (Error (js ''User with this email already exists'')), s')"
    using found by (simp add: UserService_createUser_def)
  with first show "\<exists>row s'. UserService_createUser store_prisma bc s salt1 email pw1 n1 b1 a1 p1
                  = (Inr row, s')
         \<and> UserService_createUser store_prisma bc s' salt2 email pw2 n2 b2 a2 p2
             = (Inl (Error (js ''User with this email already exists'')), s')"
    by blast
next
  assume "UserRepository_findByEmail prisma st email = Inr (Some u)"
  then show "UserService_createUser prisma bc st salt email pw n b a p
          = (Inl (Error (js ''User with this email already exists'')), st)"
    by (simp add: UserService_createUser_def)
next
  assume "UserRepository_findByEmail prisma st email = Inr None"
  then show "UserService_createUser prisma bc st salt email pw n b a p
          = (case bcrypt_hash bc salt pw 10 of
               Inl e \<Rightarrow> (Inl e, st)
             | Inr hp \<Rightarrow>
                 UserRepository_create prisma st
                   [(js ''email'', email), (js ''password'', JStr hp), (js ''name'', n),
                    (js ''bio'', b), (js ''age'', a), (js ''phone'', p)])"
    by (simp add: UserService_createUser_def)
qed

theorem register_twice_duplicate_witness:
  "\<exists>row s'. UserService_createUser store_prisma toy_bcrypt empty_store (js ''salt'')
               (JStr (js ''x@y.com'')) (JStr (js ''abc12345''))
               JUndefined JUndefined JUndefined JUndefined = (Inr row, s')
     \<and> UserService_createUser store_prisma toy_bcrypt s' (js ''pepper'')
               (JStr (js ''x@y.com'')) (JStr (js ''abc12345''))
               JUndefined JUndefined JUndefined JUndefined
         = (Inl (Error (js ''User with this email already exists'')), s')"
  using register_twice_duplicate [where s = empty_store and email = "JStr (js ''x@y.com'')"
      and bc = toy_bcrypt and ?salt1.0 = "js ''salt''" and ?pw1.0 = "JStr (js ''abc12345'')"
      and h = "js ''$2b$10$saltabc12345''", THEN conjunct1]
    empty_lookup toy_hash_example
  by blast

section \<open>Failures of the gateway\<close>




section \<open>Updating a profile\<close>

lemma find_map_same:
  "(\<And>x. P (f x) = P x) \<Longrightarrow> find P (map f xs) = map_option f (find P xs)"
  by (induction xs) auto

lemma obj_get_profile_updates:
  "obj_get (apply_updates [(js ''name'', v1), (js ''bio'', v2), (js ''age'', v3), (js ''phone'', v4)] row) k
     = (if k = js ''name'' \<and> v1 \<noteq> JUndefined then v1
        else if k = js ''bio'' \<and> v2 \<noteq> JUndefined then v2
        else if k = js ''age'' \<and> v3 \<noteq> JUndefined then int_column v3
        else if k = js ''phone'' \<and> v4 \<noteq> JUndefined then v4
        else obj_get row k)"
  by (simp add: apply_updates_def obj_get_obj_set column_def)

lemma int_column_integer: "int_column (JNum (Fin (of_int i))) = JNum (Fin (of_int i))"
  by (simp add: int_column_def)

lemma floor_thirty_and_a_half: "\<lfloor>61 / 2 :: rat\<rfloor> = 30"
  by (rule floor_unique) simp_all

lemma has_id_profile_updates:
  "has_id ident
     (apply_updates [(js ''name'', v1), (js ''bio'', v2), (js ''age'', v3), (js ''phone'', v4)] row)
     = has_id ident row"
  by (simp add: has_id_def obj_get_profile_updates)

lemma store_update_profile:
  assumes "store_findUnique_id s ident = Inr (Some row)"
  shows "\<exists>s'. store_update s ident
            [(js ''name'', v1), (js ''bio'', v2), (js ''age'', v3), (js ''phone'', v4)]
          = (Inr (apply_updates
                [(js ''name'', v1), (js ''bio'', v2), (js ''age'', v3), (js ''phone'', v4)] row), s')
        \<and> store_findUnique_id s' ident
          = Inr (Some (apply_updates
                [(js ''name'', v1), (js ''bio'', v2), (js ''age'', v3), (js ''phone'', v4)] row))"
proof -
  let ?data = "[(js ''name'', v1), (js ''bio'', v2), (js ''age'', v3), (js ''phone'', v4)]"
  let ?f = "\<lambda>r. if has_id ident r then apply_updates ?data r else r"
  have found: "find (has_id ident) (rows s) = Some row"
    using assms by (simp add: store_findUnique_id_def)
  have same: "has_id ident (?f x) = has_id ident x" for x
    by (simp add: has_id_profile_updates)
  have "find (has_id ident) (map ?f (rows s)) = map_option ?f (find (has_id ident) (rows s))"
    using same by (rule find_map_same)
  moreover have "has_id ident row"
    using found by (auto simp: find_Some_iff)
  ultimately have after: "find (has_id ident) (map ?f (rows s)) = Some (apply_updates ?data row)"
    using found by simp
  have "store_update s ident ?data = (Inr (apply_updates ?data row), s\<lparr>rows := map ?f (rows s)\<rparr>)"
    using found by (simp add: store_update_def)
  moreover have "store_findUnique_id (s\<lparr>rows := map ?f (rows s)\<rparr>) ident
      = Inr (Some (apply_updates ?data row))"
    using after by (simp add: store_findUnique_id_def)
  ultimately show ?thesis by blast
qed

lemma age_rejected_iff:
  "(num_lt n (Fin 0) \<or> num_lt (Fin 150) n)
     = (n = NegInf \<or> n = PosInf \<or> (\<exists>r. n = Fin r \<and> (r < 0 \<or> 150 < r)))"
  by (cases n) auto

lemma updateUserProfile_delegates:
  "UserRepository_findById prisma st uid = Inr (Some user) \<Longrightarrow>
   obj_get updates (js ''age'') = JUndefined \<or> obj_get updates (js ''age'') = JNum NaN
     \<or> (\<exists>r. obj_get updates (js ''age'') = JNum (Fin r) \<and> 0 \<le> r \<and> r \<le> 150) \<Longrightarrow>
   UserService_updateUserProfile prisma ext st uid updates
     = UserRepository_update prisma st uid updates"
  by (auto simp: UserService_updateUserProfile_def)

text \<open>
  Claim C7, as amended. \<open>updateUserProfile\<close> fails with "User not found" when the id
  resolves to no account, and with "Invalid age" when the account exists and \<open>age\<close> is a
  number below 0 or above 150, either infinity included; in both cases the store is left
  as it was. Otherwise, that is for an age that is absent, within 0 and 150, or \<open>NaN\<close>
  (which neither comparison rejects), the service hands the update to the gateway. The
  controller builds the update from the fields \<open>name\<close>, \<open>bio\<close>, \<open>age\<close> and \<open>phone\<close> of
  the body only, whatever else the body holds. On the store, for an existing account and
  an age that is absent or an integer within 0 and 150, the controller answers 200, and
  the profile read afterwards is the old row with exactly those of the four fields
  replaced that the body defines; every other column keeps its value, and the
  \<open>password\<close> is not shown.
\<close>

theorem update_profile_allowed_fields:
  "(UserRepository_findById prisma st uid = Inr None \<longrightarrow>
      UserService_updateUserProfile prisma ext st uid updates
        = (Inl (Error (js ''User not found'')), st))
   \<and> (UserRepository_findById prisma st uid = Inr (Some user)
        \<and> obj_get updates (js ''age'') = JNum n
        \<and> (n = NegInf \<or> n = PosInf \<or> (\<exists>r. n = Fin r \<and> (r < 0 \<or> 150 < r))) \<longrightarrow>
      UserService_updateUserProfile prisma ext st uid updates
        = (Inl (Error (js ''Invalid age'')), st))
   \<and> (UserRepository_findById prisma st uid = Inr (Some user)
        \<and> (obj_get updates (js ''age'') = JUndefined
           \<or> obj_get updates (js ''age'') = JNum NaN
           \<or> (\<exists>q. obj_get updates (js ''age'') = JNum (Fin q) \<and> 0 \<le> q \<and> q \<le> 150)) \<longrightarrow>
      UserService_updateUserProfile prisma ext st uid updates
        = UserRepository_update prisma st uid updates)
   \<and> UserController_updateUserProfile prisma ext st req
       = (case UserService_updateUserProfile prisma ext st (parseInt_val (param req (js ''id'')))
                 [(js ''name'', obj_get (body req) (js ''name'')),
                  (js ''bio'', obj_get (body req) (js ''bio'')),
                  (js ''age'', obj_get (body req) (js ''age'')),
                  (js ''phone'', obj_get (body req) (js ''phone''))] of
            (Inr updatedUser, st') \<Rightarrow>
              (\<lparr>status = 200,
                json = JObj [(js ''message'', JStr (js ''Profile updated successfully'')),
                             (js ''user'', JObj (omit (js ''password'') updatedUser))]\<rparr>, st')
          | (Inl e, st') \<Rightarrow>
              (if message e = js ''User not found'' then error_json 404 ''User not found''
               else if message e = js ''Invalid age'' then error_json 400 ''Invalid age''
               else error_json 500 ''Internal server error'', st'))
   \<and> (UserRepository_findById store_prisma s (parseInt_val (param req (js ''id''))) = Inr (Some row)
        \<and> (obj_get (body req) (js ''age'') = JUndefined
           \<or> (\<exists>i. obj_get (body req) (js ''age'') = JNum (Fin (of_int i)) \<and> 0 \<le> i \<and> i \<le> 150)) \<longrightarrow>
      (\<exists>row' s'.
         UserController_updateUserProfile store_prisma ext s req
           = (\<lparr>status = 200,
               json = JObj [(js ''message'', JStr (js ''Profile updated successfully'')),
                            (js ''user'', JObj (omit (js ''password'') row'))]\<rparr>, s')
         \<and> UserService_getUserProfile store_prisma s' (parseInt_val (param req (js ''id'')))
             = Inr (omit (js ''password'') row')
         \<and> (\<forall>k. obj_get row' k =
               (if (k = js ''name'' \<or> k = js ''bio'' \<or> k = js ''age'' \<or> k = js ''phone'')
                   \<and> obj_get (body req) k \<noteq> JUndefined
                then obj_get (body req) k else obj_get row k))))"
proof (intro conjI impI)
  assume "UserRepository_findById prisma st uid = Inr None"
  then show "UserService_updateUserProfile prisma ext st uid updates
        = (Inl (Error (js ''User not found'')), st)"
    by (simp add: UserService_updateUserProfile_def)
next
  assume a: "UserRepository_findById prisma st uid = Inr (Some user)
        \<and> obj_get updates (js ''age'') = JNum n
        \<and> (n = NegInf \<or> n = PosInf \<or> (\<exists>r. n = Fin r \<and> (r < 0 \<or> 150 < r)))"
  then have "num_lt n (Fin 0) \<or> num_lt (Fin 150) n"
    by (simp add: age_rejected_iff)
  with a show "UserService_updateUserProfile prisma ext st uid updates
        = (Inl (Error (js ''Invalid age'')), st)"
    by (simp add: UserService_updateUserProfile_def)
next
  assume "UserRepository_findById prisma st uid = Inr (Some user)
        \<and> (obj_get updates (js ''age'') = JUndefined
           \<or> obj_get updates (js ''age'') = JNum NaN
           \<or> (\<exists>q. obj_get updates (js ''age'') = JNum (Fin q) \<and> 0 \<le> q \<and> q \<le> 150))"
  then show "UserService_updateUserProfile prisma ext st uid updates
        = UserRepository_update prisma st uid updates"
    by (auto simp: UserService_updateUserProfile_def)
next
  show "UserController_updateUserProfile prisma ext st req
       = (case UserService_updateUserProfile prisma ext st (parseInt_val (param req (js ''id'')))
                 [(js ''name'', obj_get (body req) (js ''name'')),
                  (js ''bio'', obj_get (body req) (js ''bio'')),
                  (js ''age'', obj_get (body req) (js ''age'')),
                  (js ''phone'', obj_get (body req) (js ''phone''))] of
            (Inr updatedUser, st') \<Rightarrow>
              (\<lparr>status = 200,
                json = JObj [(js ''message'', JStr (js ''Profile updated successfully'')),
                             (js ''user'', JObj (omit (js ''password'') updatedUser))]\<rparr>, st')
          | (Inl e, st') \<Rightarrow>
              (if message e = js ''User not found'' then error_json 404 ''User not found''
               else if message e = js ''Invalid age'' then error_json 400 ''Invalid age''
               else error_json 500 ''Internal server error'', st'))"
    by (simp add: UserController_updateUserProfile_def Let_def)
next
  let ?uid = "parseInt_val (param req (js ''id''))"
  let ?data = "[(js ''name'', obj_get (body req) (js ''name'')),
                (js ''bio'', obj_get (body req) (js ''bio'')),
                (js ''age'', obj_get (body req) (js ''age'')),
                (js ''phone'', obj_get (body req) (js ''phone''))]"
  assume a: "UserRepository_findById store_prisma s ?uid = Inr (Some row)
        \<and> (obj_get (body req) (js ''age'') = JUndefined
           \<or> (\<exists>i. obj_get (body req) (js ''age'') = JNum (Fin (of_int i)) \<and> 0 \<le> i \<and> i \<le> 150))"
  then have found: "UserRepository_findById store_prisma s ?uid = Inr (Some row)"
    by simp
  have whole: "int_column (obj_get (body req) (js ''age'')) = obj_get (body req) (js ''age'')"
    using a by (auto simp: int_column_integer) (simp add: int_column_def)
  have age: "obj_get ?data (js ''age'') = obj_get (body req) (js ''age'')"
    by (simp add: obj_get_def)
  have ok: "obj_get ?data (js ''age'') = JUndefined \<or> obj_get ?data (js ''age'') = JNum NaN
     \<or> (\<exists>r. obj_get ?data (js ''age'') = JNum (Fin r) \<and> 0 \<le> r \<and> r \<le> 150)"
    unfolding age using a by auto
  have service: "UserService_updateUserProfile store_prisma ext s ?uid ?data
      = store_update s ?uid ?data"
    using updateUserProfile_delegates [OF found ok, of ext]
    by (simp add: UserRepository_update_def store_prisma_def)
  have "store_findUnique_id s ?uid = Inr (Some row)"
    using found by (simp add: UserRepository_findById_def store_prisma_def)
  from store_update_profile [OF this] obtain s' where
    upd: "store_update s ?uid ?data = (Inr (apply_updates ?data row), s')"
    and after: "store_findUnique_id s' ?uid = Inr (Some (apply_updates ?data row))"
    by blast
  have ctrl: "UserController_updateUserProfile store_prisma ext s req
      = (\<lparr>status = 200,
          json = JObj [(js ''message'', JStr (js ''Profile updated successfully'')),
                       (js ''user'', JObj (omit (js ''password'') (apply_updates ?data row)))]\<rparr>, s')"
    using service upd by (simp add: UserController_updateUserProfile_def Let_def)
  have prof: "UserService_getUserProfile store_prisma s' ?uid
      = Inr (omit (js ''password'') (apply_updates ?data row))"
    using after by (simp add: UserService_getUserProfile_def UserRepository_findById_def
        store_prisma_def)
  have fields: "\<forall>k. obj_get (apply_updates ?data row) k =
               (if (k = js ''name'' \<or> k = js ''bio'' \<or> k = js ''age'' \<or> k = js ''phone'')
                   \<and> obj_get (body req) k \<noteq> JUndefined
                then obj_get (body req) k else obj_get row k)"
    using whole by (auto simp: obj_get_profile_updates)
  from ctrl prof fields
  show "\<exists>row' s'.
         UserController_updateUserProfile store_prisma ext s req
           = (\<lparr>status = 200,
               json = JObj [(js ''message'', JStr (js ''Profile updated successfully'')),
                            (js ''user'', JObj (omit (js ''password'') row'))]\<rparr>, s')
         \<and> UserService_getUserProfile store_prisma s' ?uid = Inr (omit (js ''password'') row')
         \<and> (\<forall>k. obj_get row' k =
               (if (k = js ''name'' \<or> k = js ''bio'' \<or> k = js ''age'' \<or> k = js ''phone'')
                   \<and> obj_get (body req) k \<noteq> JUndefined
                then obj_get (body req) k else obj_get row k))"
    by blast
qed

theorem update_profile_allowed_fields_witness:
  "UserService_updateUserProfile store_prisma sample_ext sample_store (Fin 2)
       [(js ''age'', JNum (Fin 30))]
     = (Inl (Error (js ''User not found'')), sample_store)
   \<and> UserService_updateUserProfile store_prisma sample_ext sample_store (Fin 1)
       [(js ''age'', JNum (Fin 200))]
     = (Inl (Error (js ''Invalid age'')), sample_store)
   \<and> UserService_updateUserProfile store_prisma sample_ext sample_store (Fin 1)
       [(js ''age'', JNum PosInf)]
     = (Inl (Error (js ''Invalid age'')), sample_store)
   \<and> (\<exists>row' s'.
        UserController_updateUserProfile store_prisma sample_ext sample_store
          (incoming [] [(js ''id'', js ''1'')]
             [(js ''age'', JNum (Fin 30)), (js ''email'', JStr (js ''evil@y.com'')),
              (js ''password'', JStr (js ''plain'')), (js ''id'', JNum (Fin 9))])
          = (\<lparr>status = 200,
              json = JObj [(js ''message'', JStr (js ''Profile updated successfully'')),
                           (js ''user'', JObj (omit (js ''password'') row'))]\<rparr>, s')
        \<and> UserService_getUserProfile store_prisma s' (Fin 1) = Inr (omit (js ''password'') row')
        \<and> obj_get row' (js ''age'') = JNum (Fin 30)
        \<and> obj_get row' (js ''email'') = JStr (js ''x@y.com'')
        \<and> obj_get row' (js ''password'') = JStr (js ''$2b$10$saltabc12345'')
        \<and> obj_get row' (js ''id'') = JNum (Fin 1))"
proof -
  let ?req = "incoming [] [(js ''id'', js ''1'')]
             [(js ''age'', JNum (Fin 30)), (js ''email'', JStr (js ''evil@y.com'')),
              (js ''password'', JStr (js ''plain'')), (js ''id'', JNum (Fin 9))]"
  let ?row = "hd (rows sample_store)"
  have 1: "UserService_updateUserProfile store_prisma sample_ext sample_store (Fin 2)
       [(js ''age'', JNum (Fin 30))]
     = (Inl (Error (js ''User not found'')), sample_store)"
    by (rule update_profile_allowed_fields [where prisma = store_prisma and st = sample_store
          and uid = "Fin 2", THEN conjunct1, THEN mp])
      (rule sample_lookup)
  have 2: "UserService_updateUserProfile store_prisma sample_ext sample_store (Fin 1)
       [(js ''age'', JNum (Fin 200))]
     = (Inl (Error (js ''Invalid age'')), sample_store)"
    by (rule update_profile_allowed_fields [where prisma = store_prisma and st = sample_store
          and uid = "Fin 1" and user = ?row and n = "Fin 200",
          THEN conjunct2, THEN conjunct1, THEN mp])
      (simp add: sample_lookup obj_get_def)
  have 3: "UserService_updateUserProfile store_prisma sample_ext sample_store (Fin 1)
       [(js ''age'', JNum PosInf)]
     = (Inl (Error (js ''Invalid age'')), sample_store)"
    by (rule update_profile_allowed_fields [where prisma = store_prisma and st = sample_store
          and uid = "Fin 1" and user = ?row and n = PosInf,
          THEN conjunct2, THEN conjunct1, THEN mp])
      (simp add: sample_lookup obj_get_def)
  have uid: "parseInt_val (param ?req (js ''id'')) = Fin 1"
    by (simp add: parseInt_examples)
  have body_age: "obj_get (body ?req) (js ''age'') = JNum (Fin (of_int 30))"
    by (simp add: obj_get_def)
  have pre: "UserRepository_findById store_prisma sample_store
        (parseInt_val (param ?req (js ''id''))) = Inr (Some ?row)
      \<and> (obj_get (body ?req) (js ''age'') = JUndefined
         \<or> (\<exists>i. obj_get (body ?req) (js ''age'') = JNum (Fin (of_int i)) \<and> 0 \<le> i \<and> i \<le> 150))"
  proof -
    have "\<exists>i. obj_get (body ?req) (js ''age'') = JNum (Fin (of_int i)) \<and> 0 \<le> i \<and> i \<le> 150"
      using body_age by (intro exI [of _ 30]) simp
    then show ?thesis unfolding uid by (simp add: sample_lookup)
  qed
  from update_profile_allowed_fields [where s = sample_store and req = ?req and row = ?row
      and ext = sample_ext, THEN conjunct2, THEN conjunct2, THEN conjunct2, THEN conjunct2,
      THEN mp, OF pre]
  obtain row' s' where
    ctrl: "UserController_updateUserProfile store_prisma sample_ext sample_store ?req
          = (\<lparr>status = 200,
              json = JObj [(js ''message'', JStr (js ''Profile updated successfully'')),
                           (js ''user'', JObj (omit (js ''password'') row'))]\<rparr>, s')"
    and prof: "UserService_getUserProfile store_prisma s' (parseInt_val (param ?req (js ''id'')))
          = Inr (omit (js ''password'') row')"
    and fields: "\<And>k. obj_get row' k =
               (if (k = js ''name'' \<or> k = js ''bio'' \<or> k = js ''age'' \<or> k = js ''phone'')
                   \<and> obj_get (body ?req) k \<noteq> JUndefined
                then obj_get (body ?req) k else obj_get ?row k)"
    by blast
  have "obj_get row' (js ''age'') = JNum (Fin 30)"
    unfolding fields by (simp add: obj_get_def)
  moreover have "obj_get row' (js ''email'') = JStr (js ''x@y.com'')"
    unfolding fields by (simp add: sample_store_def obj_get_def)
  moreover have "obj_get row' (js ''password'') = JStr (js ''$2b$10$saltabc12345'')"
    unfolding fields by (simp add: sample_store_def obj_get_def)
  moreover have "obj_get row' (js ''id'') = JNum (Fin 1)"
    unfolding fields by (simp add: sample_store_def obj_get_def)
  ultimately show ?thesis
    using 1 2 3 ctrl prof unfolding uid by blast
qed

text \<open>
  An age of 30.5 passes the validator and the service and the update answers 200, but
  the age column holds integers and the profile read afterwards shows 30, not the age
  that was sent.
\<close>

theorem update_profile_fraction_counterexample:
  "validateUserProfileUpdate
       (incoming [] [(js ''id'', js ''1'')] [(js ''age'', JNum (Fin (61 / 2)))])
     = Next (incoming [] [(js ''id'', js ''1'')] [(js ''age'', JNum (Fin (61 / 2)))])
   \<and> status (fst (UserController_updateUserProfile store_prisma sample_ext sample_store
        (incoming [] [(js ''id'', js ''1'')] [(js ''age'', JNum (Fin (61 / 2)))]))) = 200
   \<and> UserService_getUserProfile store_prisma
        (snd (UserController_updateUserProfile store_prisma sample_ext sample_store
           (incoming [] [(js ''id'', js ''1'')] [(js ''age'', JNum (Fin (61 / 2)))])))
        (Fin 1)
     = Inr [(js ''id'', JNum (Fin 1)),
            (js ''email'', JStr (js ''x@y.com'')),
            (js ''name'', JNull),
            (js ''bio'', JNull),
            (js ''age'', JNum (Fin 30)),
            (js ''phone'', JNull),
            (js ''createdAt'', JNum (Fin 0))]"
proof -
  let ?req = "incoming [] [(js ''id'', js ''1'')] [(js ''age'', JNum (Fin (61 / 2)))]"
  have v: "validateUserProfileUpdate ?req = Next ?req"
    by (simp add: validateUserProfileUpdate_def obj_get_def Let_def)
  have run: "UserController_updateUserProfile store_prisma sample_ext sample_store ?req
      = (\<lparr>status = 200,
          json = JObj [(js ''message'', JStr (js ''Profile updated successfully'')),
                       (js ''user'',
                        JObj [(js ''id'', JNum (Fin 1)),
                              (js ''email'', JStr (js ''x@y.com'')),
                              (js ''name'', JNull),
                              (js ''bio'', JNull),
                              (js ''age'', JNum (Fin 30)),
                              (js ''phone'', JNull),
                              (js ''createdAt'', JNum (Fin 0))])]\<rparr>,
         sample_store\<lparr>rows :=
           [[(js ''id'', JNum (Fin 1)),
             (js ''email'', JStr (js ''x@y.com'')),
             (js ''password'', JStr (js ''$2b$10$saltabc12345'')),
             (js ''name'', JNull),
             (js ''bio'', JNull),
             (js ''age'', JNum (Fin 30)),
             (js ''phone'', JNull),
             (js ''createdAt'', JNum (Fin 0))]]\<rparr>)"
    by (simp add: UserController_updateUserProfile_def UserService_updateUserProfile_def
        layer_defs store_defs sample_store_def obj_get_def omit_def parseInt_examples Let_def
        floor_thirty_and_a_half)
  have read: "UserService_getUserProfile store_prisma
        (snd (UserController_updateUserProfile store_prisma sample_ext sample_store ?req)) (Fin 1)
     = Inr [(js ''id'', JNum (Fin 1)),
            (js ''email'', JStr (js ''x@y.com'')),
            (js ''name'', JNull),
            (js ''bio'', JNull),
            (js ''age'', JNum (Fin 30)),
            (js ''phone'', JNull),
            (js ''createdAt'', JNum (Fin 0))]"
    unfolding run
    by (simp add: UserService_getUserProfile_def layer_defs store_defs sample_store_def
        obj_get_def omit_def)
  from v run read show ?thesis by simp
qed

end
